theory Spec2Isabelle
  imports Complex_Main
begin

section \<open>JavaScript values used by the route handlers\<close>

text \<open>
  A JavaScript number is \<open>NaN\<close>, an infinity, or a finite value; finite values are
  represented by the rational they denote (rounding of sums is outside the model, and
  \<open>+0\<close> and \<open>-0\<close> coincide). Comparisons involving \<open>NaN\<close> are false, as in the
  language.
\<close>

datatype jsnum = NaN | NegInf | Fin rat | PosInf

fun js_add :: "jsnum \<Rightarrow> jsnum \<Rightarrow> jsnum" where
  "js_add NaN _ = NaN"
| "js_add _ NaN = NaN"
| "js_add PosInf NegInf = NaN"
| "js_add NegInf PosInf = NaN"
| "js_add PosInf _ = PosInf"
| "js_add _ PosInf = PosInf"
| "js_add NegInf _ = NegInf"
| "js_add _ NegInf = NegInf"
| "js_add (Fin a) (Fin b) = Fin (a + b)"

fun js_le :: "jsnum \<Rightarrow> jsnum \<Rightarrow> bool" where
  "js_le NaN _ = False"
| "js_le _ NaN = False"
| "js_le NegInf _ = True"
| "js_le _ PosInf = True"
| "js_le (Fin a) (Fin b) = (a \<le> b)"
| "js_le _ _ = False"

fun js_lt :: "jsnum \<Rightarrow> jsnum \<Rightarrow> bool" where
  "js_lt NaN _ = False"
| "js_lt _ NaN = False"
| "js_lt PosInf _ = False"
| "js_lt _ NegInf = False"
| "js_lt NegInf _ = True"
| "js_lt _ PosInf = True"
| "js_lt (Fin a) (Fin b) = (a < b)"

definition js_ge :: "jsnum \<Rightarrow> jsnum \<Rightarrow> bool" where
  "js_ge a b = js_le b a"

definition js_gt :: "jsnum \<Rightarrow> jsnum \<Rightarrow> bool" where
  "js_gt a b = js_lt b a"

definition isNaN :: "jsnum \<Rightarrow> bool" where
  "isNaN n = (n = NaN)"

text \<open>Truthiness of a number: \<open>NaN\<close> and zero are falsy.\<close>

definition truthy_num :: "jsnum \<Rightarrow> bool" where
  "truthy_num n = (n \<noteq> NaN \<and> n \<noteq> Fin 0)"

text \<open>
  Strings are lists of 8-bit code units (the Latin-1 range of JavaScript's UTF-16 code
  units). White space is what \<open>String.prototype.trim\<close> removes in that range.
\<close>

definition is_space :: "char \<Rightarrow> bool" where
  "is_space c = ((of_char c :: nat) \<in> {9, 10, 11, 12, 13, 32, 160})"

definition trim :: "string \<Rightarrow> string" where
  "trim s = rev (dropWhile is_space (rev (dropWhile is_space s)))"

definition lower_char :: "char \<Rightarrow> char" where
  "lower_char c = (let n = (of_char c :: nat) in
     if (65 \<le> n \<and> n \<le> 90) \<or> (192 \<le> n \<and> n \<le> 222 \<and> n \<noteq> 215)
     then char_of (n + 32) else c)"

definition toLowerCase :: "string \<Rightarrow> string" where
  "toLowerCase s = map lower_char s"

text \<open>\<open>s.split(d)\<close> for a one-character separator: always at least one piece.\<close>

fun split_on :: "char \<Rightarrow> string \<Rightarrow> string list" where
  "split_on d [] = [[]]"
| "split_on d (c # cs) =
     (if c = d then [] # split_on d cs
      else (case split_on d cs of
              [] \<Rightarrow> [[c]]
            | x # xs \<Rightarrow> (c # x) # xs))"

definition startsWith :: "string \<Rightarrow> string \<Rightarrow> bool" where
  "startsWith s p = (take (length p) s = p)"

text \<open>\<open>s.includes(sub)\<close>: substring test.\<close>

fun includes_str :: "string \<Rightarrow> string \<Rightarrow> bool" where
  "includes_str [] sub = (sub = [])"
| "includes_str (c # cs) sub = (startsWith (c # cs) sub \<or> includes_str cs sub)"

text \<open>\<open>x || d\<close> for \<open>x\<close> a string or \<open>null\<close>/\<open>undefined\<close>: the empty string is falsy.\<close>

definition str_or :: "string option \<Rightarrow> string \<Rightarrow> string" where
  "str_or x d = (case x of None \<Rightarrow> d | Some s \<Rightarrow> if s = [] then d else s)"

text \<open>
  The built-ins \<open>parseFloat\<close> and \<open>parseInt(_, 10)\<close> on strings and the clock belong to
  the JavaScript runtime, not to the repository; the handlers take them as a parameter.
\<close>

record runtime =
  parseFloat :: "string \<Rightarrow> jsnum"
  parseInt :: "string \<Rightarrow> jsnum"
  now :: string

text \<open>
  \<open>Array.prototype.slice(start, end)\<close>: each index goes through
  \<open>ToIntegerOrInfinity\<close> (\<open>NaN\<close> becomes 0, fractions are truncated toward zero),
  a negative index counts from the end, and both are clamped to the array.
\<close>

definition truncate_rat :: "rat \<Rightarrow> int" where
  "truncate_rat r = (if r < 0 then - \<lfloor>- r\<rfloor> else \<lfloor>r\<rfloor>)"

definition clampIndex :: "jsnum \<Rightarrow> nat \<Rightarrow> nat" where
  "clampIndex x len =
     (case x of
        NaN \<Rightarrow> 0
      | NegInf \<Rightarrow> 0
      | PosInf \<Rightarrow> len
      | Fin r \<Rightarrow>
          (let t = truncate_rat r in
           if t < 0 then nat (max (int len + t) 0) else min (nat t) len))"

definition slice :: "'a list \<Rightarrow> jsnum \<Rightarrow> jsnum \<Rightarrow> 'a list" where
  "slice xs start fin =
     (let len = length xs; k = clampIndex start len; final = clampIndex fin len
      in take (final - k) (drop k xs))"

text \<open>
  The exception the handlers can raise in their own code: a method call on a value that
  has no such method (\<open>undefined\<close>, \<open>null\<close>).
\<close>

datatype error = TypeError

section \<open>The facilities route: \<open>app/api/facilities/route.ts\<close>\<close>

record Classification =
  is_truck_parking :: bool
  is_rest_area :: bool
  is_service_area :: bool

record FeatureLocation =
  municipality :: "string option"
  province :: "string option"
  highway :: "string option"

text \<open>
  The fields of \<open>EnrichedFeature\<close> that the handler reads or writes; the others
  (\<open>osm_id\<close>, \<open>tags\<close>, \<open>geometry\<close>, ...) are carried through unchanged by the spread.
  The data is untyped JSON: \<open>ef_name\<close> is \<open>None\<close> for a feature whose \<open>name\<close> is
  missing or \<open>null\<close>, on which \<open>feature.name.toLowerCase()\<close> throws. A missing
  coordinate is \<open>NaN\<close>: \<open>undefined\<close> fails every comparison, as \<open>NaN\<close> does. The
  fields that are present have the types the interface declares.
\<close>

record EnrichedFeature =
  ef_id :: string
  ef_name :: "string option"
  ef_latitude :: jsnum
  ef_longitude :: jsnum
  ef_location :: "FeatureLocation option"
  ef_classification :: Classification
  ef_facility_type :: "string option"

text \<open>The callback of \<open>rawData.map\<close> in \<open>loadAndTransformData\<close>.\<close>

definition facility_type_of :: "Classification \<Rightarrow> string" where
  "facility_type_of c =
     (let facility_type = ''rest_area'' in
      if is_truck_parking c then ''truck_parking''
      else if is_service_area c then ''service_area''
      else if is_rest_area c then ''rest_area''
      else facility_type)"

definition addFacilityType :: "EnrichedFeature \<Rightarrow> EnrichedFeature" where
  "addFacilityType feature =
     feature\<lparr>ef_facility_type := Some (facility_type_of (ef_classification feature))\<rparr>"

text \<open>
  \<open>loadAndTransformData\<close>: \<open>cachedData\<close> is the module-level cache (an empty array is
  truthy, so it counts as cached); \<open>file\<close> is what reading and parsing
  \<open>truck_parking_enriched.json\<close> gives, \<open>None\<close> when \<open>readFile\<close> or \<open>JSON.parse\<close>
  throws, or when the file holds a feature without a \<open>classification\<close> object, on which
  the map callback throws before anything is cached. The result is \<open>None\<close> when the
  call throws, otherwise the data and the new cache.
\<close>

definition loadAndTransformData ::
  "EnrichedFeature list option \<Rightarrow> EnrichedFeature list option
     \<Rightarrow> (EnrichedFeature list \<times> EnrichedFeature list option) option" where
  "loadAndTransformData cachedData file =
     (case cachedData of
        Some d \<Rightarrow> Some (d, cachedData)
      | None \<Rightarrow>
          (case file of
             None \<Rightarrow> None
           | Some rawData \<Rightarrow>
               (let d = map addFacilityType rawData in Some (d, Some d))))"

text \<open>The query string: each parameter is a string, or \<open>None\<close> when it is absent.\<close>

record Query =
  q_bounds :: "string option"
  q_types :: "string option"
  q_search :: "string option"
  q_limit :: "string option"
  q_offset :: "string option"

definition typesOf :: "Query \<Rightarrow> string list" where
  "typesOf q =
     (case q_types q of
        None \<Rightarrow> [''truck_parking'', ''service_area'', ''rest_area'']
      | Some s \<Rightarrow> split_on CHR '','' s)"

definition searchOf :: "Query \<Rightarrow> string" where
  "searchOf q = (case q_search q of None \<Rightarrow> [] | Some s \<Rightarrow> toLowerCase s)"

definition limitOf :: "runtime \<Rightarrow> Query \<Rightarrow> jsnum" where
  "limitOf rt q = parseInt rt (str_or (q_limit q) ''1000'')"

definition offsetOf :: "runtime \<Rightarrow> Query \<Rightarrow> jsnum" where
  "offsetOf rt q = parseInt rt (str_or (q_offset q) ''0'')"

text \<open>
  The array destructuring \<open>[minLat, minLng, maxLat, maxLng]\<close>: a missing element is
  \<open>undefined\<close>, which a comparison converts to \<open>NaN\<close>.
\<close>

definition elemOrNaN :: "jsnum list \<Rightarrow> nat \<Rightarrow> jsnum" where
  "elemOrNaN xs i = (if i < length xs then xs ! i else NaN)"

definition parseBounds :: "runtime \<Rightarrow> string \<Rightarrow> jsnum \<times> jsnum \<times> jsnum \<times> jsnum" where
  "parseBounds rt bounds =
     (let parts = map (parseFloat rt) (split_on CHR '','' bounds)
      in (elemOrNaN parts 0, elemOrNaN parts 1, elemOrNaN parts 2, elemOrNaN parts 3))"

definition inBounds :: "jsnum \<times> jsnum \<times> jsnum \<times> jsnum \<Rightarrow> EnrichedFeature \<Rightarrow> bool" where
  "inBounds b feature =
     (case b of (minLat, minLng, maxLat, maxLng) \<Rightarrow>
        js_ge (ef_latitude feature) minLat \<and> js_le (ef_latitude feature) maxLat \<and>
        js_ge (ef_longitude feature) minLng \<and> js_le (ef_longitude feature) maxLng)"

definition filterBounds :: "runtime \<Rightarrow> Query \<Rightarrow> EnrichedFeature list \<Rightarrow> EnrichedFeature list" where
  "filterBounds rt q data =
     (case q_bounds q of
        None \<Rightarrow> data
      | Some bounds \<Rightarrow>
          if bounds = [] then data
          else filter (inBounds (parseBounds rt bounds)) data)"

definition matchesType :: "string list \<Rightarrow> EnrichedFeature \<Rightarrow> bool" where
  "matchesType types feature =
     (str_or (ef_facility_type feature) ''rest_area'' \<in> set types)"

text \<open>
  \<open>x?.toLowerCase().includes(search)\<close> on an optional string: \<open>undefined\<close> (falsy) when
  the string is missing.
\<close>

definition optIncludes :: "string option \<Rightarrow> string \<Rightarrow> bool" where
  "optIncludes x search =
     (case x of None \<Rightarrow> False | Some s \<Rightarrow> includes_str (toLowerCase s) search)"

text \<open>
  The callback of the search filter. \<open>feature.name.toLowerCase()\<close> is evaluated first
  and has no optional chaining: without a name it throws.
\<close>

definition matchesSearch :: "string \<Rightarrow> EnrichedFeature \<Rightarrow> error + bool" where
  "matchesSearch search feature =
     (case ef_name feature of
        None \<Rightarrow> Inl TypeError
      | Some name \<Rightarrow>
          Inr (includes_str (toLowerCase name) search \<or>
               optIncludes (Option.bind (ef_location feature) municipality) search \<or>
               optIncludes (Option.bind (ef_location feature) province) search \<or>
               optIncludes (Option.bind (ef_location feature) highway) search))"

text \<open>
  \<open>xs.filter(p)\<close> for a callback that may throw: the callback runs on every element in
  order, and an exception leaves the filter.
\<close>

fun filterE :: "('a \<Rightarrow> error + bool) \<Rightarrow> 'a list \<Rightarrow> error + 'a list" where
  "filterE p [] = Inr []"
| "filterE p (x # xs) =
     (case p x of
        Inl e \<Rightarrow> Inl e
      | Inr b \<Rightarrow>
          (case filterE p xs of
             Inl e \<Rightarrow> Inl e
           | Inr ys \<Rightarrow> Inr (if b then x # ys else ys)))"

definition filterSearch :: "Query \<Rightarrow> EnrichedFeature list \<Rightarrow> error + EnrichedFeature list" where
  "filterSearch q data =
     (if searchOf q = [] then Inr data else filterE (matchesSearch (searchOf q)) data)"

text \<open>The three filters of \<open>GET\<close>, in the handler's order.\<close>

definition filterData ::
  "runtime \<Rightarrow> Query \<Rightarrow> EnrichedFeature list \<Rightarrow> error + EnrichedFeature list" where
  "filterData rt q data =
     filterSearch q (filter (matchesType (typesOf q)) (filterBounds rt q data))"

record Stats =
  stats_total :: nat
  stats_truck_parking :: nat
  stats_service_area :: nat
  stats_rest_area :: nat

record FacilitiesResponse =
  r_facilities :: "EnrichedFeature list"
  r_stats :: Stats
  r_total :: nat
  r_offset :: jsnum
  r_limit :: jsnum

definition countType :: "string \<Rightarrow> EnrichedFeature list \<Rightarrow> nat" where
  "countType t data = length (filter (\<lambda>f. ef_facility_type f = Some t) data)"

text \<open>
  The body of the \<open>try\<close> block of \<open>GET\<close> after the data has been loaded: the filters,
  which may throw, then pagination and statistics.
\<close>

definition respond ::
  "runtime \<Rightarrow> Query \<Rightarrow> EnrichedFeature list \<Rightarrow> error + FacilitiesResponse" where
  "respond rt q loaded =
     (case filterData rt q loaded of
        Inl e \<Rightarrow> Inl e
      | Inr data \<Rightarrow>
          (let limit = limitOf rt q;
               offset = offsetOf rt q;
               total = length data;
               paginatedData = slice data offset (js_add offset limit);
               stats = \<lparr>stats_total = total,
                        stats_truck_parking = countType ''truck_parking'' data,
                        stats_service_area = countType ''service_area'' data,
                        stats_rest_area = countType ''rest_area'' data\<rparr>
           in Inr \<lparr>r_facilities = paginatedData, r_stats = stats, r_total = total,
                   r_offset = offset, r_limit = limit\<rparr>))"

text \<open>
  What the client receives: the JSON body, or the \<open>catch\<close> branch's
  \<open>{error: 'Failed to load facilities'}\<close> with status 500.
\<close>

datatype 'a http = Json 'a | Status500 string

text \<open>
  \<open>GET\<close>: the \<open>try\<close> block covers both the loading and the filtering, and every
  exception ends in the same \<open>catch\<close> branch. When the filtering throws, the data
  has already been cached by \<open>loadAndTransformData\<close>.
\<close>

definition GET ::
  "runtime \<Rightarrow> EnrichedFeature list option \<Rightarrow> EnrichedFeature list option \<Rightarrow> Query
     \<Rightarrow> FacilitiesResponse http \<times> EnrichedFeature list option" where
  "GET rt cachedData file q =
     (case loadAndTransformData cachedData file of
        None \<Rightarrow> (Status500 ''Failed to load facilities'', cachedData)
      | Some (data, cache') \<Rightarrow>
          (case respond rt q data of
             Inl e \<Rightarrow> (Status500 ''Failed to load facilities'', cache')
           | Inr body \<Rightarrow> (Json body, cache')))"

section \<open>The query in the words of the specification\<close>

text \<open>
  The items of a comma-separated list are the pieces, none containing the separator,
  that joined by the separator give the list back.
\<close>

fun joinWith :: "char \<Rightarrow> string list \<Rightarrow> string" where
  "joinWith d [] = []"
| "joinWith d [p] = p"
| "joinWith d (p # p' # ps) = p @ d # joinWith d (p' # ps)"

text \<open>
  Rectangular containment of the facility's point in the bounds, when bounds are given:
  the parameter is the comma-separated list \<open>minLat,minLng,maxLat,maxLng\<close> (further
  items are ignored), each item read as a number.
\<close>

definition spec_in_bounds :: "runtime \<Rightarrow> Query \<Rightarrow> EnrichedFeature \<Rightarrow> bool" where
  "spec_in_bounds rt q f =
     (case q_bounds q of
        None \<Rightarrow> True
      | Some b \<Rightarrow>
          b = [] \<or>
          (\<exists>minLat minLng maxLat maxLng rest.
              (\<forall>i \<in> set (minLat # minLng # maxLat # maxLng # rest). CHR '','' \<notin> set i) \<and>
              joinWith CHR '','' (minLat # minLng # maxLat # maxLng # rest) = b \<and>
              js_le (parseFloat rt minLat) (ef_latitude f) \<and>
              js_le (ef_latitude f) (parseFloat rt maxLat) \<and>
              js_le (parseFloat rt minLng) (ef_longitude f) \<and>
              js_le (ef_longitude f) (parseFloat rt maxLng)))"

text \<open>
  The facility's type (\<open>rest_area\<close> for a facility that carries none) is one of the
  three types when no \<open>types\<close> parameter is given, and otherwise one of the items of
  the comma-separated parameter.
\<close>

definition spec_type_selected :: "Query \<Rightarrow> EnrichedFeature \<Rightarrow> bool" where
  "spec_type_selected q f =
     (case q_types q of
        None \<Rightarrow>
          str_or (ef_facility_type f) ''rest_area''
            \<in> {''truck_parking'', ''service_area'', ''rest_area''}
      | Some s \<Rightarrow>
          (\<exists>items. items \<noteq> [] \<and> (\<forall>i \<in> set items. CHR '','' \<notin> set i) \<and>
                   joinWith CHR '','' items = s \<and>
                   str_or (ef_facility_type f) ''rest_area'' \<in> set items))"

text \<open>The texts a search looks into: name, municipality, province and highway.\<close>

definition spec_texts :: "EnrichedFeature \<Rightarrow> string set" where
  "spec_texts f =
     set_option (ef_name f) \<union>
     (case ef_location f of
        None \<Rightarrow> {}
      | Some l \<Rightarrow>
          set_option (municipality l) \<union> set_option (province l) \<union> set_option (highway l))"

text \<open>
  A non-empty search text is, ignoring case, a substring of one of the facility's texts.
\<close>

definition spec_search_hit :: "Query \<Rightarrow> EnrichedFeature \<Rightarrow> bool" where
  "spec_search_hit q f =
     (case q_search q of
        None \<Rightarrow> True
      | Some s \<Rightarrow>
          s = [] \<or>
          (\<exists>t \<in> spec_texts f. \<exists>pre post. toLowerCase t = pre @ toLowerCase s @ post))"

definition spec_passes :: "runtime \<Rightarrow> Query \<Rightarrow> EnrichedFeature \<Rightarrow> bool" where
  "spec_passes rt q f =
     (spec_in_bounds rt q f \<and> spec_type_selected q f \<and> spec_search_hit q f)"

text \<open>
  The one situation in which the filters raise: a search text is given and a facility
  inside the bounds and of a selected type has no name.
\<close>

definition nameless_hit :: "runtime \<Rightarrow> Query \<Rightarrow> EnrichedFeature list \<Rightarrow> bool" where
  "nameless_hit rt q data =
     (\<exists>s. q_search q = Some s \<and> s \<noteq> [] \<and>
          (\<exists>f \<in> set data.
              spec_in_bounds rt q f \<and> spec_type_selected q f \<and> ef_name f = None))"


section \<open>A concrete runtime for closed examples\<close>

text \<open>
  Decimal readers standing for \<open>parseFloat\<close> and \<open>parseInt(_, 10)\<close>: leading white
  space, an optional sign, then the longest numeric prefix; \<open>NaN\<close> when there is none.
\<close>

definition is_digit :: "char \<Rightarrow> bool" where
  "is_digit c = (48 \<le> (of_char c :: nat) \<and> (of_char c :: nat) \<le> 57)"

definition digits_value :: "string \<Rightarrow> nat" where
  "digits_value ds = foldl (\<lambda>acc c. 10 * acc + ((of_char c :: nat) - 48)) 0 ds"

definition read_sign :: "string \<Rightarrow> rat \<times> string" where
  "read_sign s =
     (case s of
        [] \<Rightarrow> (1, [])
      | c # cs \<Rightarrow>
          if c = CHR ''-'' then (- 1, cs)
          else if c = CHR ''+'' then (1, cs)
          else (1, s))"

definition read_exponent :: "string \<Rightarrow> rat" where
  "read_exponent s =
     (case s of
        [] \<Rightarrow> 1
      | c # cs \<Rightarrow>
          if c = CHR ''e'' \<or> c = CHR ''E'' then
            (case read_sign cs of (sg, ds) \<Rightarrow>
               (let e = takeWhile is_digit ds in
                if e = [] then 1
                else if sg < 0 then 1 / 10 ^ digits_value e
                else 10 ^ digits_value e))
          else 1)"

definition parseFloat_dec :: "string \<Rightarrow> jsnum" where
  "parseFloat_dec s =
     (case read_sign (dropWhile is_space s) of (sg, u) \<Rightarrow>
        if startsWith u ''Infinity'' then (if sg < 0 then NegInf else PosInf)
        else
          (let ip = takeWhile is_digit u;
               r1 = dropWhile is_digit u;
               hasDot = (r1 \<noteq> [] \<and> hd r1 = CHR ''.'');
               fp = (if hasDot then takeWhile is_digit (tl r1) else []);
               r2 = (if hasDot then dropWhile is_digit (tl r1) else r1)
           in if ip = [] \<and> fp = [] then NaN
              else Fin (sg * (of_nat (digits_value ip)
                              + of_nat (digits_value fp) / 10 ^ length fp)
                           * read_exponent r2)))"

definition parseInt_dec :: "string \<Rightarrow> jsnum" where
  "parseInt_dec s =
     (case read_sign (dropWhile is_space s) of (sg, u) \<Rightarrow>
        (let ds = takeWhile is_digit u
         in if ds = [] then NaN else Fin (sg * of_nat (digits_value ds))))"

definition rt0 :: runtime where
  "rt0 = \<lparr>parseFloat = parseFloat_dec, parseInt = parseInt_dec,
          now = ''2025-01-01T00:00:00.000Z''\<rparr>"

section \<open>Example inputs\<close>

definition feat ::
  "string \<Rightarrow> string option \<Rightarrow> rat \<Rightarrow> rat \<Rightarrow> bool \<Rightarrow> bool \<Rightarrow> bool \<Rightarrow> EnrichedFeature" where
  "feat i n la lo tp sa ra =
     \<lparr>ef_id = i, ef_name = n, ef_latitude = Fin la, ef_longitude = Fin lo,
      ef_location = None,
      ef_classification =
        \<lparr>is_truck_parking = tp, is_rest_area = ra, is_service_area = sa\<rparr>,
      ef_facility_type = None\<rparr>"


definition q_search_c :: Query where
  "q_search_c = \<lparr>q_bounds = Some ''52.0,4.5,52.5,5.0'',
                  q_types = Some ''rest_area,truck_parking'', q_search = Some ''C'',
                  q_limit = None, q_offset = None\<rparr>"

definition raw1 :: "EnrichedFeature list" where
  "raw1 =
     [feat ''a'' (Some ''A'') (521/10) (46/10) True False False,
      feat ''b'' (Some ''B'') 53 (46/10) False True False,
      feat ''c'' (Some ''Cc'') (522/10) (49/10) False False False]"

definition data1 :: "EnrichedFeature list" where
  "data1 = map addFacilityType raw1"

definition raw_nameless :: "EnrichedFeature list" where
  "raw_nameless = [feat ''n'' None (521/10) (46/10) True False False]"

definition q_empty_types :: Query where
  "q_empty_types = \<lparr>q_bounds = None, q_types = Some [], q_search = None,
          q_limit = None, q_offset = None\<rparr>"

definition q_no_types :: Query where
  "q_no_types = \<lparr>q_bounds = None, q_types = None, q_search = None,
          q_limit = None, q_offset = None\<rparr>"

section \<open>Parsed XML documents\<close>

text \<open>
  What \<open>XMLParser.parse\<close> returns: strings, numbers, booleans, objects (key order
  kept, looked up by key) and arrays. \<open>undefined\<close> is not a value of the document; a
  property read that finds nothing gives \<open>None\<close>.
\<close>

datatype jsval =
    JStr string
  | JNum jsnum
  | JBool bool
  | JObj "(string \<times> jsval) list"
  | JArr "jsval list"

fun truthy :: "jsval \<Rightarrow> bool" where
  "truthy (JStr s) = (s \<noteq> [])"
| "truthy (JNum n) = truthy_num n"
| "truthy (JBool b) = b"
| "truthy (JObj kvs) = True"
| "truthy (JArr xs) = True"

definition truthy_opt :: "jsval option \<Rightarrow> bool" where
  "truthy_opt x = (case x of None \<Rightarrow> False | Some v \<Rightarrow> truthy v)"

text \<open>\<open>v[k]\<close> for a fixed key \<open>k\<close>: only objects carry the keys the handlers read.\<close>

fun getProp :: "jsval \<Rightarrow> string \<Rightarrow> jsval option" where
  "getProp (JObj kvs) k = map_of kvs k"
| "getProp _ k = None"

text \<open>\<open>x?.[k]\<close>.\<close>

definition opt_prop :: "jsval option \<Rightarrow> string \<Rightarrow> jsval option" where
  "opt_prop x k = (case x of None \<Rightarrow> None | Some v \<Rightarrow> getProp v k)"

text \<open>\<open>x?.[0]\<close>: the first element of an array, the first character of a string.\<close>

definition opt_index0 :: "jsval option \<Rightarrow> jsval option" where
  "opt_index0 x =
     (case x of
        None \<Rightarrow> None
      | Some (JArr xs) \<Rightarrow> (case xs of [] \<Rightarrow> None | y # _ \<Rightarrow> Some y)
      | Some (JStr s) \<Rightarrow> (case s of [] \<Rightarrow> None | c # _ \<Rightarrow> Some (JStr [c]))
      | Some (JObj kvs) \<Rightarrow> map_of kvs ''0''
      | Some _ \<Rightarrow> None)"

text \<open>\<open>a || b\<close> on possibly undefined values.\<close>

definition js_or :: "jsval option \<Rightarrow> jsval option \<Rightarrow> jsval option" where
  "js_or a b = (if truthy_opt a then a else b)"

text \<open>\<open>a || d\<close> with a defined default \<open>d\<close>.\<close>

definition or_else :: "jsval option \<Rightarrow> jsval \<Rightarrow> jsval" where
  "or_else a d = (case a of None \<Rightarrow> d | Some v \<Rightarrow> if truthy v then v else d)"

text \<open>\<open>n || 0\<close> on a number or \<open>undefined\<close>.\<close>

definition num_or0 :: "jsnum option \<Rightarrow> jsnum" where
  "num_or0 x = (case x of None \<Rightarrow> Fin 0 | Some n \<Rightarrow> if truthy_num n then n else Fin 0)"

definition is_string :: "jsval option \<Rightarrow> bool" where
  "is_string x = (case x of Some (JStr s) \<Rightarrow> True | _ \<Rightarrow> False)"

text \<open>
  \<open>parseFloat\<close> of a value that need not be a string. The built-in converts its
  argument to a string first: a number reads back as itself, \<open>true\<close> and
  \<open>[object Object]\<close> are not numeric, and an array prints its elements separated by
  commas, so only the first element can contribute a numeric prefix.
\<close>

fun parseFloatV :: "runtime \<Rightarrow> jsval \<Rightarrow> jsnum" where
  "parseFloatV rt (JStr s) = parseFloat rt s"
| "parseFloatV rt (JNum n) = n"
| "parseFloatV rt (JBool b) = NaN"
| "parseFloatV rt (JObj kvs) = NaN"
| "parseFloatV rt (JArr []) = NaN"
| "parseFloatV rt (JArr (x # xs)) = parseFloatV rt x"

section \<open>The NDW route: helpers\<close>

definition extractText :: "jsval option \<Rightarrow> jsval option" where
  "extractText node =
     (if \<not> truthy_opt node then None
      else if is_string node then node
      else if truthy_opt (opt_prop node ''#text'') then opt_prop node ''#text''
      else if truthy_opt (opt_prop (opt_index0 (opt_prop node ''value'')) ''#text'')
        then opt_prop (opt_index0 (opt_prop node ''value'')) ''#text''
      else None)"

definition extractNumber :: "runtime \<Rightarrow> jsval option \<Rightarrow> jsnum option" where
  "extractNumber rt node =
     (case node of
        None \<Rightarrow> None
      | Some (JNum n) \<Rightarrow> Some n
      | Some _ \<Rightarrow>
          (case extractText node of
             None \<Rightarrow> None
           | Some text \<Rightarrow> if truthy text then Some (parseFloatV rt text) else None))"

definition ensureArray :: "jsval option \<Rightarrow> jsval list" where
  "ensureArray item =
     (case item of
        None \<Rightarrow> []
      | Some v \<Rightarrow>
          if \<not> truthy v then []
          else (case v of JArr xs \<Rightarrow> xs | _ \<Rightarrow> [v]))"

section \<open>The NDW route: \<open>parseParkingTable\<close>\<close>

record Coordinates =
  latitude :: jsnum
  longitude :: jsnum

record NDWCapacity =
  totalSpaces :: jsnum
  lorrySpaces :: "jsnum option"
  refrigeratedSpaces :: "jsnum option"
  heavyHaulSpaces :: "jsnum option"

text \<open>
  The fields of \<open>NDWParkingFacility\<close> modelled here. The remaining ones
  (\<open>address\<close>, \<open>operator\<close>, \<open>pricing\<close>, \<open>facilities\<close>, \<open>security\<close>, \<open>access\<close>) are
  read from their own sub-trees of the record by the same helpers and influence none of
  these.
\<close>

record NDWParkingFacility =
  ndw_id :: jsval
  ndw_version :: jsval
  ndw_name :: jsval
  ndw_location :: Coordinates
  ndw_capacity :: NDWCapacity

text \<open>The four counters of the capacity loop.\<close>

record SpaceCounts =
  c_total :: jsnum
  c_lorry :: jsnum
  c_refrigerated :: jsnum
  c_heavyHaul :: jsnum

definition groupSpaces :: "runtime \<Rightarrow> jsval \<Rightarrow> jsnum" where
  "groupSpaces rt grp = num_or0 (extractNumber rt (getProp grp ''parkingNumberOfSpaces''))"

definition groupVehicleType :: "jsval \<Rightarrow> jsval option" where
  "groupVehicleType grp =
     extractText
       (opt_prop (opt_prop (opt_prop (getProp grp ''parkingSpaceBasics'') ''parkingUsage'')
                   ''vehicleCharacteristics'') ''vehicleType'')"

text \<open>The body of \<open>groupsOfSpaces.forEach\<close>.\<close>

definition countGroup :: "runtime \<Rightarrow> SpaceCounts \<Rightarrow> jsval \<Rightarrow> SpaceCounts" where
  "countGroup rt acc grp =
     (let spaces = groupSpaces rt grp;
          acc1 = acc\<lparr>c_total := js_add (c_total acc) spaces\<rparr>;
          vehicleType = groupVehicleType grp
      in if vehicleType = Some (JStr ''lorry'')
           then acc1\<lparr>c_lorry := js_add (c_lorry acc1) spaces\<rparr>
         else if vehicleType = Some (JStr ''refrigeratedGoods'')
           then acc1\<lparr>c_refrigerated := js_add (c_refrigerated acc1) spaces\<rparr>
         else if vehicleType = Some (JStr ''heavyHaul'')
           then acc1\<lparr>c_heavyHaul := js_add (c_heavyHaul acc1) spaces\<rparr>
         else acc1)"

definition zeroCounts :: SpaceCounts where
  "zeroCounts = \<lparr>c_total = Fin 0, c_lorry = Fin 0, c_refrigerated = Fin 0,
                 c_heavyHaul = Fin 0\<rparr>"

definition countGroups :: "runtime \<Rightarrow> jsval list \<Rightarrow> SpaceCounts" where
  "countGroups rt groupsOfSpaces = foldl (countGroup rt) zeroCounts groupsOfSpaces"

text \<open>\<open>n > 0 ? n : undefined\<close>.\<close>

definition positiveOrUndefined :: "jsnum \<Rightarrow> jsnum option" where
  "positiveOrUndefined n = (if js_gt n (Fin 0) then Some n else None)"

definition pointCoordinates :: "jsval \<Rightarrow> jsval option" where
  "pointCoordinates record =
     (let parkingLocation = getProp record ''parkingLocation''
      in js_or (opt_prop (opt_prop parkingLocation ''pointByCoordinates'') ''pointCoordinates'')
               (opt_prop (opt_prop (opt_prop parkingLocation ''locationForDisplay'')
                            ''pointByCoordinates'') ''pointCoordinates''))"

definition recordLocation :: "runtime \<Rightarrow> jsval \<Rightarrow> Coordinates" where
  "recordLocation rt record =
     \<lparr>latitude = num_or0 (extractNumber rt (opt_prop (pointCoordinates record) ''latitude'')),
      longitude = num_or0 (extractNumber rt (opt_prop (pointCoordinates record) ''longitude''))\<rparr>"

text \<open>The callback of \<open>parkingRecords.map\<close> in \<open>parseParkingTable\<close>.\<close>

definition parseRecord :: "runtime \<Rightarrow> jsval \<Rightarrow> NDWParkingFacility" where
  "parseRecord rt record =
     (let id = or_else (getProp record ''@_id'') (JStr []);
          version = or_else (getProp record ''@_version'') (JNum (Fin 1));
          nameValue = opt_prop (opt_prop (getProp record ''parkingName'') ''values'') ''value'';
          name = or_else (extractText nameValue) id;
          counts = countGroups rt (ensureArray (getProp record ''groupOfParkingSpaces''))
      in \<lparr>ndw_id = id, ndw_version = version, ndw_name = name,
          ndw_location = recordLocation rt record,
          ndw_capacity =
            \<lparr>totalSpaces = c_total counts,
             lorrySpaces = positiveOrUndefined (c_lorry counts),
             refrigeratedSpaces = positiveOrUndefined (c_refrigerated counts),
             heavyHaulSpaces = positiveOrUndefined (c_heavyHaul counts)\<rparr>\<rparr>)"

definition parkingTable :: "jsval \<Rightarrow> jsval option" where
  "parkingTable data =
     (let model = js_or (getProp data ''d2LogicalModel'') (getProp data ''d2:d2LogicalModel'')
      in opt_prop (opt_prop (opt_prop (opt_prop model ''payloadPublication'')
                     ''genericPublicationExtension'') ''parkingTablePublication'')
           ''parkingTable'')"

definition parkingRecords :: "jsval \<Rightarrow> jsval list" where
  "parkingRecords data = ensureArray (opt_prop (parkingTable data) ''parkingRecord'')"

text \<open>
  \<open>parseParkingTable\<close>. Every read below the root goes through optional chaining or
  hits a defined value, so nothing throws on a parsed document and the \<open>catch\<close>
  branch (which would return the empty list) is not reached.
\<close>

definition parseParkingTable :: "runtime \<Rightarrow> jsval \<Rightarrow> NDWParkingFacility list" where
  "parseParkingTable rt data = map (parseRecord rt) (parkingRecords data)"

definition extractTableVersion :: "jsval \<Rightarrow> jsval option" where
  "extractTableVersion data = opt_prop (parkingTable data) ''@_version''"

section \<open>The EU route: \<open>fetchAndParseEUData\<close>\<close>

record EUCapacity =
  eu_totalSpaces :: jsnum
  eu_hgvSpaces :: "jsnum option"

text \<open>
  The location and capacity of \<open>EUParkingFacility\<close>; the location is read exactly as
  in the NDW route.
\<close>

record EUParkingFacility =
  eu_location :: Coordinates
  eu_capacity :: "EUCapacity option"

definition countEUGroup :: "runtime \<Rightarrow> jsnum \<times> jsnum \<Rightarrow> jsval \<Rightarrow> jsnum \<times> jsnum" where
  "countEUGroup rt acc grp =
     (case acc of (totalSp, hgvSp) \<Rightarrow>
        (let spaces = groupSpaces rt grp;
             vehicleType = groupVehicleType grp
         in (js_add totalSp spaces,
             if vehicleType = Some (JStr ''lorry'') \<or> vehicleType = Some (JStr ''hgv'')
             then js_add hgvSp spaces else hgvSp)))"

definition parseEURecord :: "runtime \<Rightarrow> jsval \<Rightarrow> EUParkingFacility" where
  "parseEURecord rt record =
     (case foldl (countEUGroup rt) (Fin 0, Fin 0)
             (ensureArray (getProp record ''groupOfParkingSpaces'')) of
        (totalSp, hgvSp) \<Rightarrow>
          \<lparr>eu_location = recordLocation rt record,
           eu_capacity =
             (if js_gt totalSp (Fin 0)
              then Some \<lparr>eu_totalSpaces = totalSp,
                          eu_hgvSpaces = positiveOrUndefined hgvSp\<rparr>
              else None)\<rparr>)"

text \<open>
  \<open>fetchAndParseEUData\<close> for one source: \<open>fetched\<close> is the parsed document, or
  \<open>None\<close> when the response is not ok or fetching or parsing throws; both give the
  empty list.
\<close>

definition fetchAndParseEUData :: "runtime \<Rightarrow> jsval option \<Rightarrow> EUParkingFacility list" where
  "fetchAndParseEUData rt fetched =
     (case fetched of
        None \<Rightarrow> []
      | Some data \<Rightarrow> map (parseEURecord rt) (parkingRecords data))"


section \<open>The NDW route: \<open>parseParkingStatus\<close> and the merge in \<open>GET\<close>\<close>

record GroupStatus =
  g_index :: jsval
  g_vacantSpaces :: jsnum
  g_occupiedSpaces :: jsnum
  g_occupancy :: jsnum

record NDWParkingStatus =
  st_id :: jsval
  st_vacantSpaces :: jsnum
  st_occupiedSpaces :: jsnum
  st_occupancy :: jsnum
  st_status :: jsval
  st_timestamp :: jsval
  st_groupedStatus :: "GroupStatus list option"

text \<open>\<open>x?.['ns2:' + k] || x?.[k]\<close>.\<close>

definition ns2 :: "jsval option \<Rightarrow> string \<Rightarrow> jsval option" where
  "ns2 x k = js_or (opt_prop x (''ns2:'' @ k)) (opt_prop x k)"

definition statusRecords :: "jsval \<Rightarrow> jsval list" where
  "statusRecords data =
     (let payload = js_or (getProp data ''ns3:payload'') (getProp data ''payload'')
      in ensureArray (ns2 payload ''parkingRecordStatus''))"

definition referenceId :: "jsval \<Rightarrow> jsval option" where
  "referenceId statusRecord =
     opt_prop (ns2 (Some statusRecord) ''parkingRecordReference'') ''@_id''"

text \<open>The callback of \<open>groupedStatuses.map\<close>.\<close>

definition groupStatus :: "runtime \<Rightarrow> jsval \<Rightarrow> GroupStatus" where
  "groupStatus rt grp =
     (let groupOccupancy = ns2 (Some grp) ''groupOfParkingSpacesStatus''
      in \<lparr>g_index = or_else (getProp grp ''@_groupIndex'') (JNum (Fin 0)),
          g_vacantSpaces =
            num_or0 (extractNumber rt (ns2 groupOccupancy ''parkingNumberOfVacantSpaces'')),
          g_occupiedSpaces =
            num_or0 (extractNumber rt (ns2 groupOccupancy ''parkingNumberOfOccupiedSpaces'')),
          g_occupancy =
            num_or0 (extractNumber rt (ns2 groupOccupancy ''parkingOccupancy''))\<rparr>)"

text \<open>
  The status built for one record with identifier \<open>rid\<close> (the source's \<open>id\<close>). The filter
  \<open>g.index !== undefined\<close> keeps every group, since \<open>index\<close> is a defined value.
\<close>

definition statusOf :: "runtime \<Rightarrow> jsval \<Rightarrow> jsval \<Rightarrow> NDWParkingStatus" where
  "statusOf rt rid statusRecord =
     (let occupancyData = ns2 (Some statusRecord) ''parkingOccupancy'';
          groupedStatus =
            map (groupStatus rt)
              (ensureArray (ns2 (Some statusRecord) ''groupOfParkingSpacesStatus''))
      in \<lparr>st_id = rid,
          st_vacantSpaces =
            num_or0 (extractNumber rt (ns2 occupancyData ''parkingNumberOfVacantSpaces'')),
          st_occupiedSpaces =
            num_or0 (extractNumber rt (ns2 occupancyData ''parkingNumberOfOccupiedSpaces'')),
          st_occupancy =
            num_or0 (extractNumber rt (ns2 occupancyData ''parkingOccupancy'')),
          st_status =
            or_else (extractText (ns2 (Some statusRecord) ''parkingSiteStatus''))
              (JStr ''unknown''),
          st_timestamp =
            or_else (extractText (ns2 (Some statusRecord) ''parkingStatusOriginTime''))
              (JStr (now rt)),
          st_groupedStatus = (if groupedStatus \<noteq> [] then Some groupedStatus else None)\<rparr>)"

text \<open>
  The body of \<open>statusRecords.forEach\<close>: \<open>if (!id) return\<close>, otherwise
  \<open>statusMap.set(id, ...)\<close>. Keys are XML attribute values, that is primitives, on
  which the map's key comparison is equality of values.
\<close>

definition addStatus ::
  "runtime \<Rightarrow> (jsval \<rightharpoonup> NDWParkingStatus) \<Rightarrow> jsval \<Rightarrow> (jsval \<rightharpoonup> NDWParkingStatus)" where
  "addStatus rt statusMap statusRecord =
     (case referenceId statusRecord of
        None \<Rightarrow> statusMap
      | Some rid \<Rightarrow>
          if \<not> truthy rid then statusMap
          else statusMap(rid \<mapsto> statusOf rt rid statusRecord))"

definition parseParkingStatus :: "runtime \<Rightarrow> jsval \<Rightarrow> (jsval \<rightharpoonup> NDWParkingStatus)" where
  "parseParkingStatus rt data = foldl (addStatus rt) Map.empty (statusRecords data)"

record NDWEnrichedFacility = NDWParkingFacility +
  liveStatus :: "NDWParkingStatus option"

text \<open>\<open>{...facility, liveStatus: statusMap.get(facility.id)}\<close>.\<close>

definition enrich ::
  "(jsval \<rightharpoonup> NDWParkingStatus) \<Rightarrow> NDWParkingFacility \<Rightarrow> NDWEnrichedFacility" where
  "enrich statusMap facility =
     \<lparr>ndw_id = ndw_id facility, ndw_version = ndw_version facility,
      ndw_name = ndw_name facility, ndw_location = ndw_location facility,
      ndw_capacity = ndw_capacity facility,
      liveStatus = statusMap (ndw_id facility)\<rparr>"

definition mergeLiveStatus ::
  "NDWParkingFacility list \<Rightarrow> (jsval \<rightharpoonup> NDWParkingStatus) \<Rightarrow> NDWEnrichedFacility list" where
  "mergeLiveStatus facilities statusMap = map (enrich statusMap) facilities"

record NDWDataResponse =
  nr_facilities :: "NDWEnrichedFacility list"
  nr_lastUpdated :: string
  nr_tableVersion :: jsval
  nr_totalFacilities :: nat

text \<open>
  \<open>GET\<close> of the NDW route, one request. \<open>tableFetch\<close> and \<open>statusFetch\<close> are the
  two parsed documents, \<open>None\<close> when the fetch fails, the response is not ok or the
  parser throws. The handler keeps nothing between requests.
\<close>

definition GET_ndw :: "runtime \<Rightarrow> jsval option \<Rightarrow> jsval option \<Rightarrow> NDWDataResponse http" where
  "GET_ndw rt tableFetch statusFetch =
     (case tableFetch of
        None \<Rightarrow> Status500 ''Failed to fetch truck parking data''
      | Some tableData \<Rightarrow>
          (case statusFetch of
             None \<Rightarrow> Status500 ''Failed to fetch truck parking data''
           | Some statusData \<Rightarrow>
               (let facilities = parseParkingTable rt tableData;
                    statusMap = parseParkingStatus rt statusData;
                    enrichedFacilities = mergeLiveStatus facilities statusMap
                in Json \<lparr>nr_facilities = enrichedFacilities,
                         nr_lastUpdated = now rt,
                         nr_tableVersion =
                           or_else (extractTableVersion tableData) (JNum (Fin 0)),
                         nr_totalFacilities = length enrichedFacilities\<rparr>)))"


text \<open>The per-type sums in the words of the specification: left-to-right sums of the
  space counts of the groups carrying a given vehicle-type code.\<close>

definition sumSpaces :: "runtime \<Rightarrow> jsval list \<Rightarrow> jsnum" where
  "sumSpaces rt groups = foldl js_add (Fin 0) (map (groupSpaces rt) groups)"

definition groupsOfType :: "string \<Rightarrow> jsval list \<Rightarrow> jsval list" where
  "groupsOfType t groups = filter (\<lambda>g. groupVehicleType g = Some (JStr t)) groups"

definition facilitiesOf :: "NDWDataResponse http \<Rightarrow> NDWEnrichedFacility list" where
  "facilitiesOf r = (case r of Json body \<Rightarrow> nr_facilities body | Status500 e \<Rightarrow> [])"

definition spaceGroup :: "rat \<Rightarrow> string \<Rightarrow> jsval" where
  "spaceGroup n t =
     JObj [(''parkingNumberOfSpaces'', JNum (Fin n)),
           (''parkingSpaceBasics'',
            JObj [(''parkingUsage'',
                   JObj [(''vehicleCharacteristics'',
                          JObj [(''vehicleType'', JStr t)])])])]"

definition tableDoc :: "jsval \<Rightarrow> jsval" where
  "tableDoc records =
     JObj [(''d2LogicalModel'',
            JObj [(''payloadPublication'',
                   JObj [(''genericPublicationExtension'',
                          JObj [(''parkingTablePublication'',
                                 JObj [(''parkingTable'',
                                        JObj [(''@_version'', JNum (Fin 3)),
                                              (''parkingRecord'', records)])])])])])]"

definition record_421 :: jsval where
  "record_421 =
     JObj [(''@_id'', JStr ''NL-12_421''),
           (''@_version'', JNum (Fin 2)),
           (''parkingName'',
            JObj [(''values'',
                   JObj [(''value'',
                          JObj [(''#text'', JStr ''Truckparking Venlo''),
                                (''@_lang'', JStr ''nl'')])])]),
           (''parkingLocation'',
            JObj [(''pointByCoordinates'',
                   JObj [(''pointCoordinates'',
                          JObj [(''latitude'', JNum (Fin (5137/100))),
                                (''longitude'', JNum (Fin (617/100)))])])]),
           (''groupOfParkingSpaces'',
            JArr [spaceGroup 30 ''lorry'', spaceGroup 18 ''heavyHaul''])]"

definition record_cars :: jsval where
  "record_cars =
     JObj [(''@_id'', JStr ''NL-99_1''),
           (''groupOfParkingSpaces'', spaceGroup 10 ''car'')]"

definition record_far :: jsval where
  "record_far =
     JObj [(''@_id'', JStr ''NL-99_2''),
           (''parkingLocation'',
            JObj [(''pointByCoordinates'',
                   JObj [(''pointCoordinates'',
                          JObj [(''latitude'', JNum (Fin 999)),
                                (''longitude'', JNum (Fin (- 500)))])])])]"

definition statusDoc :: "jsval \<Rightarrow> jsval" where
  "statusDoc records =
     JObj [(''ns3:payload'', JObj [(''ns2:parkingRecordStatus'', records)])]"

definition statusRec :: "string \<Rightarrow> rat \<Rightarrow> rat \<Rightarrow> jsval" where
  "statusRec i vacant occupied =
     JObj [(''ns2:parkingRecordReference'', JObj [(''@_id'', JStr i)]),
           (''ns2:parkingOccupancy'',
            JObj [(''ns2:parkingNumberOfVacantSpaces'', JNum (Fin vacant)),
                  (''ns2:parkingNumberOfOccupiedSpaces'', JNum (Fin occupied))]),
           (''ns2:parkingSiteStatus'', JStr ''spacesAvailable'')]"

definition statusRec_noid :: jsval where
  "statusRec_noid =
     JObj [(''ns2:parkingOccupancy'',
            JObj [(''ns2:parkingNumberOfVacantSpaces'', JNum (Fin 7))]),
           (''ns2:parkingSiteStatus'', JStr ''full'')]"

section \<open>The Zenodo route: \<open>parseCSV\<close>\<close>

record ZenodoFacility =
  z_id :: string
  z_name :: string
  z_category :: string
  z_location :: Coordinates
  z_country :: string
  z_area :: "jsnum option"
  z_source :: string

text \<open>\<open>xs.findIndex(p)\<close>, with \<open>None\<close> for the result \<open>-1\<close>.\<close>

fun findIndex :: "('a \<Rightarrow> bool) \<Rightarrow> 'a list \<Rightarrow> nat option" where
  "findIndex p [] = None"
| "findIndex p (x # xs) =
     (if p x then Some 0
      else (case findIndex p xs of None \<Rightarrow> None | Some j \<Rightarrow> Some (Suc j)))"

text \<open>\<open>s.replace(/^"|"$/g, '')\<close>: one leading and one trailing double quote go.\<close>

definition stripQuotes :: "string \<Rightarrow> string" where
  "stripQuotes s =
     (let s1 = (case s of [] \<Rightarrow> [] | c # cs \<Rightarrow> if c = CHR 0x22 then cs else s)
      in if s1 \<noteq> [] \<and> last s1 = CHR 0x22 then butlast s1 else s1)"

text \<open>\<open>fields[j]\<close>: \<open>undefined\<close> beyond the end.\<close>

definition fieldAt :: "string list \<Rightarrow> nat \<Rightarrow> string option" where
  "fieldAt flds j = (if j < length flds then Some (flds ! j) else None)"

text \<open>\<open>parseFloat\<close> of a field that may be \<open>undefined\<close> (which is not numeric).\<close>

definition parseFloatOpt :: "runtime \<Rightarrow> string option \<Rightarrow> jsnum" where
  "parseFloatOpt rt x = (case x of None \<Rightarrow> NaN | Some s \<Rightarrow> parseFloat rt s)"

text \<open>The decimal digits of the row number in a template string.\<close>

fun digits :: "nat \<Rightarrow> string" where
  "digits n =
     (if n < 10 then [char_of (48 + n)]
      else digits (n div 10) @ [char_of (48 + n mod 10)])"

record ColumnIndices =
  latIndex :: "nat option"
  lonIndex :: "nat option"
  countryIndex :: "nat option"
  categoryIndex :: "nat option"
  areaIndex :: "nat option"
  nameIndex :: "nat option"

definition headersOf :: "string \<Rightarrow> string list" where
  "headersOf line0 = map (\<lambda>h. stripQuotes (trim h)) (split_on CHR '';'' line0)"

definition columnIndices :: "string list \<Rightarrow> ColumnIndices" where
  "columnIndices headers =
     \<lparr>latIndex = findIndex (\<lambda>h. includes_str (toLowerCase h) ''lat'') headers,
      lonIndex = findIndex (\<lambda>h. includes_str (toLowerCase h) ''lon'') headers,
      countryIndex = findIndex (\<lambda>h. includes_str (toLowerCase h) ''country'') headers,
      categoryIndex =
        findIndex (\<lambda>h. includes_str (toLowerCase h) ''category''
                        \<or> includes_str (toLowerCase h) ''type'') headers,
      areaIndex =
        findIndex (\<lambda>h. includes_str (toLowerCase h) ''area''
                        \<or> includes_str (toLowerCase h) ''size'') headers,
      nameIndex =
        findIndex (\<lambda>h. includes_str (toLowerCase h) ''name''
                        \<or> includes_str (toLowerCase h) ''id'') headers\<rparr>"

text \<open>
  The inner loop over the characters of a line, followed by the push of the last
  field: \<open>rest\<close> is what is left of the line.
\<close>

fun scanFields :: "string \<Rightarrow> string \<Rightarrow> bool \<Rightarrow> string list \<Rightarrow> string list" where
  "scanFields [] currentField inQuotes flds = flds @ [trim currentField]"
| "scanFields (c # rest) currentField inQuotes flds =
     (if c = CHR 0x22 then scanFields rest currentField (\<not> inQuotes) flds
      else if c = CHR '';'' \<and> \<not> inQuotes
        then scanFields rest [] inQuotes (flds @ [trim currentField])
      else scanFields rest (currentField @ [c]) inQuotes flds)"

definition rowFields :: "string \<Rightarrow> string list" where
  "rowFields line = scanFields line [] False []"

text \<open>
  \<open>const lat = latIndex >= 0 ? parseFloat(fields[latIndex]) : null\<close>, and the same
  for \<open>lon\<close>; \<open>None\<close> is \<open>null\<close>.
\<close>

definition coordinateAt :: "runtime \<Rightarrow> nat option \<Rightarrow> string list \<Rightarrow> jsnum option" where
  "coordinateAt rt ix flds =
     (case ix of None \<Rightarrow> None | Some j \<Rightarrow> Some (parseFloatOpt rt (fieldAt flds j)))"

text \<open>
  The test \<open>lat === null || lon === null || isNaN(lat) || isNaN(lon)\<close> that makes
  the loop skip a row.
\<close>

definition invalidCoordinates :: "jsnum option \<Rightarrow> jsnum option \<Rightarrow> bool" where
  "invalidCoordinates lat lon =
     (case lat of
        None \<Rightarrow> True
      | Some la \<Rightarrow> (case lon of None \<Rightarrow> True | Some lo \<Rightarrow> isNaN la \<or> isNaN lo))"

text \<open>
  \<open>ix >= 0 ? fields[ix].replace(/^"|"$/g, '') : d\<close>: the call on a missing field
  throws.
\<close>

definition quotedField :: "string list \<Rightarrow> nat option \<Rightarrow> string \<Rightarrow> error + string" where
  "quotedField flds ix d =
     (case ix of
        None \<Rightarrow> Inr d
      | Some j \<Rightarrow>
          (case fieldAt flds j of
             None \<Rightarrow> Inl TypeError
           | Some f \<Rightarrow> Inr (stripQuotes f)))"

text \<open>
  The body of the loop over the data rows, for row number \<open>i\<close>: \<open>Inr None\<close> is
  \<open>continue\<close>, \<open>Inr (Some f)\<close> is \<open>facilities.push(f)\<close>, \<open>Inl\<close> is an exception
  leaving \<open>parseCSV\<close>.
\<close>

definition parseRow ::
  "runtime \<Rightarrow> ColumnIndices \<Rightarrow> nat \<Rightarrow> string \<Rightarrow> error + ZenodoFacility option" where
  "parseRow rt ix i rawLine =
     (let line = trim rawLine in
      if line = [] then Inr None
      else
        (let flds = rowFields line in
         case coordinateAt rt (latIndex ix) flds of
           None \<Rightarrow> Inr None
         | Some lat \<Rightarrow>
             (case coordinateAt rt (lonIndex ix) flds of
                None \<Rightarrow> Inr None
              | Some lon \<Rightarrow>
                  if isNaN lat \<or> isNaN lon then Inr None
                  else
                    (case quotedField flds (countryIndex ix) ''Unknown'' of
                       Inl e \<Rightarrow> Inl e
                     | Inr country \<Rightarrow>
                         (case quotedField flds (categoryIndex ix) ''parking'' of
                            Inl e \<Rightarrow> Inl e
                          | Inr category \<Rightarrow>
                              (let area = coordinateAt rt (areaIndex ix) flds in
                               case quotedField flds (nameIndex ix)
                                      (country @ ''-'' @ digits i) of
                                 Inl e \<Rightarrow> Inl e
                               | Inr name \<Rightarrow>
                                   Inr (Some
                                     \<lparr>z_id = ''zenodo-'' @ country @ ''-'' @ digits i,
                                      z_name =
                                        str_or (Some name) (''Parking '' @ digits i),
                                      z_category = category,
                                      z_location =
                                        \<lparr>latitude = lat, longitude = lon\<rparr>,
                                      z_country = country,
                                      z_area =
                                        (case area of
                                           None \<Rightarrow> None
                                         | Some a \<Rightarrow>
                                             if truthy_num a then Some a else None),
                                      z_source = ''Zenodo (Fraunhofer ISI)''\<rparr>)))))))"

text \<open>The loop \<open>for (let i = 1; i < lines.length; i++)\<close> from row \<open>i\<close> on.\<close>

fun parseRows ::
  "runtime \<Rightarrow> ColumnIndices \<Rightarrow> nat \<Rightarrow> string list \<Rightarrow> ZenodoFacility list
     \<Rightarrow> error + ZenodoFacility list" where
  "parseRows rt ix i [] facilities = Inr facilities"
| "parseRows rt ix i (l # ls) facilities =
     (case parseRow rt ix i l of
        Inl e \<Rightarrow> Inl e
      | Inr None \<Rightarrow> parseRows rt ix (Suc i) ls facilities
      | Inr (Some f) \<Rightarrow> parseRows rt ix (Suc i) ls (facilities @ [f]))"

definition parseCSV :: "runtime \<Rightarrow> string \<Rightarrow> error + ZenodoFacility list" where
  "parseCSV rt csvText =
     (case split_on CHR 0x0A (trim csvText) of
        [] \<Rightarrow> Inr []
      | line0 # rows \<Rightarrow> parseRows rt (columnIndices (headersOf line0)) 1 rows [])"


definition csv_header :: string where
  "csv_header = ''latitude;longitude;country;category''"

definition csv_good :: string where
  "csv_good = csv_header @ [CHR 0x0A] @ ''52.1;4.6;NL;truckstop''"

definition csv_bad :: string where
  "csv_bad = csv_good @ [CHR 0x0A] @ ''abc;4.7;NL;truckstop''"

definition csv_short :: string where
  "csv_short = ''latitude;longitude;country'' @ [CHR 0x0A] @ ''52.1;4.6''"

section \<open>Properties of the facilities route\<close>

lemma error_is_TypeError: "(e :: error) = TypeError"
  by (cases e) simp

lemma filterE_char:
  "filterE p xs =
     (if \<forall>x \<in> set xs. p x \<noteq> Inl TypeError
      then Inr (filter (\<lambda>x. p x = Inr True) xs) else Inl TypeError)"
proof (induction xs)
  case Nil
  show ?case by simp
next
  case (Cons x xs)
  show ?case
  proof (cases "p x")
    case (Inl e)
    then show ?thesis using error_is_TypeError [of e] by simp
  next
    case (Inr b)
    then show ?thesis using Cons.IH by (cases b) simp_all
  qed
qed

lemma startsWith_iff: "startsWith s p \<longleftrightarrow> (\<exists>post. s = p @ post)"
proof
  assume "startsWith s p"
  then have "s = p @ drop (length p) s"
    unfolding startsWith_def by (metis append_take_drop_id)
  then show "\<exists>post. s = p @ post" ..
next
  assume "\<exists>post. s = p @ post"
  then show "startsWith s p" by (auto simp: startsWith_def)
qed

lemma includes_str_iff: "includes_str s sub \<longleftrightarrow> (\<exists>pre post. s = pre @ sub @ post)"
proof (induction s)
  case Nil
  show ?case by auto
next
  case (Cons c cs)
  show ?case
  proof
    assume "includes_str (c # cs) sub"
    then consider "startsWith (c # cs) sub" | "includes_str cs sub" by auto
    then show "\<exists>pre post. c # cs = pre @ sub @ post"
    proof cases
      case 1
      then obtain post where "c # cs = sub @ post" using startsWith_iff by blast
      then have "c # cs = [] @ sub @ post" by simp
      then show ?thesis by blast
    next
      case 2
      then obtain pre post where "cs = pre @ sub @ post" using Cons.IH by blast
      then have "c # cs = (c # pre) @ sub @ post" by simp
      then show ?thesis by blast
    qed
  next
    assume "\<exists>pre post. c # cs = pre @ sub @ post"
    then obtain pre post where e: "c # cs = pre @ sub @ post" by blast
    show "includes_str (c # cs) sub"
    proof (cases pre)
      case Nil
      with e have "startsWith (c # cs) sub" using startsWith_iff by auto
      then show ?thesis by simp
    next
      case (Cons a pre')
      with e have "cs = pre' @ sub @ post" by simp
      then have "includes_str cs sub" using Cons.IH by blast
      then show ?thesis by simp
    qed
  qed
qed

lemma split_on_nonempty: "split_on d s \<noteq> []"
  by (induction s) (auto split: list.splits)

lemma split_on_no_sep: "d \<notin> set p \<Longrightarrow> split_on d p = [p]"
  by (induction p) auto

lemma split_on_append_sep: "d \<notin> set p \<Longrightarrow> split_on d (p @ d # r) = p # split_on d r"
  by (induction p) auto

lemma split_join:
  "items \<noteq> [] \<Longrightarrow> \<forall>i \<in> set items. d \<notin> set i \<Longrightarrow> split_on d (joinWith d items) = items"
proof (induction d items rule: joinWith.induct)
  case (1 d)
  then show ?case by simp
next
  case (2 d p)
  then show ?case by (simp add: split_on_no_sep)
next
  case (3 d p p' ps)
  then show ?case by (simp add: split_on_append_sep)
qed

lemma join_split: "joinWith d (split_on d s) = s"
proof (induction s)
  case Nil
  show ?case by simp
next
  case (Cons c cs)
  obtain x xs where e: "split_on d cs = x # xs"
    using split_on_nonempty [of d cs] by (cases "split_on d cs") auto
  show ?case
  proof (cases "c = d")
    case True
    then show ?thesis using Cons.IH e by simp
  next
    case False
    then show ?thesis using Cons.IH e by (cases xs) auto
  qed
qed

lemma split_pieces_no_sep: "i \<in> set (split_on d s) \<Longrightarrow> d \<notin> set i"
proof (induction s arbitrary: i)
  case Nil
  then show ?case by simp
next
  case (Cons c cs)
  obtain x xs where e: "split_on d cs = x # xs"
    using split_on_nonempty [of d cs] by (cases "split_on d cs") auto
  have x: "d \<notin> set x" using Cons.IH e by simp
  have xs: "\<forall>j \<in> set xs. d \<notin> set j" using Cons.IH e by simp
  show ?case
  proof (cases "c = d")
    case True
    with Cons.prems e have "i = [] \<or> i = x \<or> i \<in> set xs" by auto
    then show ?thesis using x xs by auto
  next
    case False
    with Cons.prems e have "i = c # x \<or> i \<in> set xs" by auto
    then show ?thesis using x xs False by auto
  qed
qed

lemma items_iff:
  "(\<exists>items. items \<noteq> [] \<and> (\<forall>i \<in> set items. d \<notin> set i) \<and> joinWith d items = s \<and> t \<in> set items)
     \<longleftrightarrow> t \<in> set (split_on d s)"
proof
  assume "\<exists>items. items \<noteq> [] \<and> (\<forall>i \<in> set items. d \<notin> set i) \<and> joinWith d items = s \<and> t \<in> set items"
  then obtain items where i: "items \<noteq> []" "\<forall>i \<in> set items. d \<notin> set i"
    "joinWith d items = s" "t \<in> set items" by blast
  from i(1,2) have "split_on d (joinWith d items) = items" by (rule split_join)
  with i(3,4) show "t \<in> set (split_on d s)" by simp
next
  assume t: "t \<in> set (split_on d s)"
  have "split_on d s \<noteq> [] \<and> (\<forall>i \<in> set (split_on d s). d \<notin> set i) \<and>
        joinWith d (split_on d s) = s \<and> t \<in> set (split_on d s)"
    using t split_on_nonempty split_pieces_no_sep join_split by blast
  then show "\<exists>items. items \<noteq> [] \<and> (\<forall>i \<in> set items. d \<notin> set i) \<and> joinWith d items = s \<and> t \<in> set items"
    by blast
qed

lemma matchesType_spec: "matchesType (typesOf q) f = spec_type_selected q f"
proof (cases "q_types q")
  case None
  then show ?thesis by (simp add: matchesType_def typesOf_def spec_type_selected_def)
next
  case (Some s)
  then show ?thesis
    by (simp add: matchesType_def typesOf_def spec_type_selected_def items_iff)
qed

lemma inBounds_spec:
  "inBounds (minLat, minLng, maxLat, maxLng) f =
     (js_le minLat (ef_latitude f) \<and> js_le (ef_latitude f) maxLat \<and>
      js_le minLng (ef_longitude f) \<and> js_le (ef_longitude f) maxLng)"
  by (simp add: inBounds_def js_ge_def)

lemma js_le_NaN_right: "\<not> js_le x NaN"
  by (cases x) simp_all

lemma spec_bounds_iff:
  "(\<exists>minLat minLng maxLat maxLng rest.
      (\<forall>i \<in> set (minLat # minLng # maxLat # maxLng # rest). CHR '','' \<notin> set i) \<and>
      joinWith CHR '','' (minLat # minLng # maxLat # maxLng # rest) = b \<and>
      js_le (parseFloat rt minLat) (ef_latitude f) \<and>
      js_le (ef_latitude f) (parseFloat rt maxLat) \<and>
      js_le (parseFloat rt minLng) (ef_longitude f) \<and>
      js_le (ef_longitude f) (parseFloat rt maxLng))
   \<longleftrightarrow> inBounds (parseBounds rt b) f"
proof
  assume "\<exists>minLat minLng maxLat maxLng rest.
      (\<forall>i \<in> set (minLat # minLng # maxLat # maxLng # rest). CHR '','' \<notin> set i) \<and>
      joinWith CHR '','' (minLat # minLng # maxLat # maxLng # rest) = b \<and>
      js_le (parseFloat rt minLat) (ef_latitude f) \<and>
      js_le (ef_latitude f) (parseFloat rt maxLat) \<and>
      js_le (parseFloat rt minLng) (ef_longitude f) \<and>
      js_le (ef_longitude f) (parseFloat rt maxLng)"
  then obtain minLat minLng maxLat maxLng rest
    where i: "\<forall>i \<in> set (minLat # minLng # maxLat # maxLng # rest). CHR '','' \<notin> set i"
      and j: "joinWith CHR '','' (minLat # minLng # maxLat # maxLng # rest) = b"
      and c: "js_le (parseFloat rt minLat) (ef_latitude f)"
             "js_le (ef_latitude f) (parseFloat rt maxLat)"
             "js_le (parseFloat rt minLng) (ef_longitude f)"
             "js_le (ef_longitude f) (parseFloat rt maxLng)"
    by blast
  have "split_on CHR '','' (joinWith CHR '','' (minLat # minLng # maxLat # maxLng # rest))
          = minLat # minLng # maxLat # maxLng # rest"
    using i by (intro split_join) simp_all
  then have sp: "split_on CHR '','' b = minLat # minLng # maxLat # maxLng # rest"
    by (simp only: j)
  have "parseBounds rt b
          = (parseFloat rt minLat, parseFloat rt minLng, parseFloat rt maxLat, parseFloat rt maxLng)"
    by (simp add: parseBounds_def sp elemOrNaN_def)
  then show "inBounds (parseBounds rt b) f"
    using c by (simp add: inBounds_spec)
next
  assume ib: "inBounds (parseBounds rt b) f"
  let ?items = "split_on CHR '','' b"
  have len: "4 \<le> length ?items"
  proof (rule ccontr)
    assume "\<not> 4 \<le> length ?items"
    then have "elemOrNaN (map (parseFloat rt) ?items) 3 = NaN" by (simp add: elemOrNaN_def)
    with ib show False
      by (simp add: parseBounds_def Let_def inBounds_spec js_le_NaN_right)
  qed
  then obtain minLat minLng maxLat maxLng rest
    where sp: "?items = minLat # minLng # maxLat # maxLng # rest"
    by (cases ?items rule: list.exhaust; simp)
       (metis (no_types, opaque_lifting) Suc_le_length_iff add_2_eq_Suc' numeral_2_eq_2
          numeral_3_eq_3 Suc_le_mono length_Cons list.size(3) not_less_eq_eq le0 neq_Nil_conv)
  have i: "\<forall>i \<in> set (minLat # minLng # maxLat # maxLng # rest). CHR '','' \<notin> set i"
    using split_pieces_no_sep [of _ "CHR '',''" b] by (simp only: sp [symmetric]) blast
  have j: "joinWith CHR '','' (minLat # minLng # maxLat # maxLng # rest) = b"
    using join_split [of "CHR '',''" b] by (simp only: sp)
  have pb: "parseBounds rt b
          = (parseFloat rt minLat, parseFloat rt minLng, parseFloat rt maxLat, parseFloat rt maxLng)"
    by (simp add: parseBounds_def sp elemOrNaN_def)
  from ib have "js_le (parseFloat rt minLat) (ef_latitude f) \<and>
      js_le (ef_latitude f) (parseFloat rt maxLat) \<and>
      js_le (parseFloat rt minLng) (ef_longitude f) \<and>
      js_le (ef_longitude f) (parseFloat rt maxLng)"
    by (simp add: pb inBounds_spec)
  with i j show "\<exists>minLat minLng maxLat maxLng rest.
      (\<forall>i \<in> set (minLat # minLng # maxLat # maxLng # rest). CHR '','' \<notin> set i) \<and>
      joinWith CHR '','' (minLat # minLng # maxLat # maxLng # rest) = b \<and>
      js_le (parseFloat rt minLat) (ef_latitude f) \<and>
      js_le (ef_latitude f) (parseFloat rt maxLat) \<and>
      js_le (parseFloat rt minLng) (ef_longitude f) \<and>
      js_le (ef_longitude f) (parseFloat rt maxLng)"
    by blast
qed

lemma spec_in_bounds_parse:
  assumes "q_bounds q = Some b" "b \<noteq> []"
  shows "spec_in_bounds rt q f = inBounds (parseBounds rt b) f"
  unfolding spec_in_bounds_def assms(1) option.case spec_bounds_iff
  using assms(2) by simp

lemma filterBounds_spec: "filterBounds rt q xs = filter (spec_in_bounds rt q) xs"
proof (cases "q_bounds q")
  case None
  then show ?thesis by (simp add: filterBounds_def spec_in_bounds_def)
next
  case (Some b)
  show ?thesis
  proof (cases "b = []")
    case True
    with Some show ?thesis by (simp add: filterBounds_def spec_in_bounds_def)
  next
    case False
    have "inBounds (parseBounds rt b) = spec_in_bounds rt q"
      by (rule ext) (simp add: spec_in_bounds_parse [OF Some False])
    with Some False show ?thesis by (simp add: filterBounds_def)
  qed
qed

lemma toLowerCase_Nil: "toLowerCase s = [] \<longleftrightarrow> s = []"
  by (simp add: toLowerCase_def)

lemma optIncludes_iff:
  "optIncludes x search \<longleftrightarrow> (\<exists>t \<in> set_option x. \<exists>pre post. toLowerCase t = pre @ search @ post)"
  by (cases x) (simp_all add: optIncludes_def includes_str_iff)

lemma matchesSearch_spec:
  assumes "q_search q = Some s" "s \<noteq> []" "ef_name f = Some n"
  shows "matchesSearch (searchOf q) f = Inr (spec_search_hit q f)"
proof -
  define P where "P t \<longleftrightarrow> (\<exists>pre post. toLowerCase t = pre @ toLowerCase s @ post)" for t
  have so: "searchOf q = toLowerCase s" using assms(1) by (simp add: searchOf_def)
  have inc: "includes_str (toLowerCase n) (toLowerCase s) = P n"
    by (simp add: includes_str_iff P_def)
  have opt: "\<And>x. optIncludes x (toLowerCase s) = (\<exists>t \<in> set_option x. P t)"
    by (simp add: optIncludes_iff P_def)
  have "(P n \<or>
         (\<exists>t \<in> set_option (Option.bind (ef_location f) municipality). P t) \<or>
         (\<exists>t \<in> set_option (Option.bind (ef_location f) province). P t) \<or>
         (\<exists>t \<in> set_option (Option.bind (ef_location f) highway). P t))
        \<longleftrightarrow> (\<exists>t \<in> spec_texts f. P t)"
    unfolding spec_texts_def assms(3) by (cases "ef_location f") auto
  then have key: "(P n \<or>
         (\<exists>t \<in> set_option (Option.bind (ef_location f) municipality). P t) \<or>
         (\<exists>t \<in> set_option (Option.bind (ef_location f) province). P t) \<or>
         (\<exists>t \<in> set_option (Option.bind (ef_location f) highway). P t))
        = (\<exists>t \<in> spec_texts f. P t)" .
  have hit: "spec_search_hit q f = (\<exists>t \<in> spec_texts f. P t)"
    using assms(1,2) by (simp add: spec_search_hit_def P_def)
  have m: "matchesSearch (searchOf q) f =
             Inr (includes_str (toLowerCase n) (toLowerCase s) \<or>
                  optIncludes (Option.bind (ef_location f) municipality) (toLowerCase s) \<or>
                  optIncludes (Option.bind (ef_location f) province) (toLowerCase s) \<or>
                  optIncludes (Option.bind (ef_location f) highway) (toLowerCase s))"
    by (simp add: matchesSearch_def assms(3) so)
  show ?thesis
    unfolding m inc opt key hit by (rule refl)
qed

lemma filter_cong_set: "(\<forall>x \<in> set xs. P x = Q x) \<Longrightarrow> filter P xs = filter Q xs"
  by (induction xs) auto

lemma filterData_spec:
  "filterData rt q loaded =
     (if nameless_hit rt q loaded then Inl TypeError
      else Inr (filter (spec_passes rt q) loaded))"
proof -
  let ?xs = "filter (\<lambda>f. spec_in_bounds rt q f \<and> spec_type_selected q f) loaded"
  have pre: "filter (matchesType (typesOf q)) (filterBounds rt q loaded) = ?xs"
    by (simp add: filterBounds_spec matchesType_spec [abs_def])
  show ?thesis
  proof (cases "q_search q = None \<or> q_search q = Some []")
    case True
    then have e: "searchOf q = []" by (auto simp: searchOf_def toLowerCase_def)
    from True have n: "\<not> nameless_hit rt q loaded" by (auto simp: nameless_hit_def)
    from True have "\<forall>f. spec_search_hit q f" by (auto simp: spec_search_hit_def)
    then have "\<forall>f \<in> set loaded. spec_passes rt q f
                 = (spec_in_bounds rt q f \<and> spec_type_selected q f)"
      by (simp add: spec_passes_def)
    then have "filter (spec_passes rt q) loaded = ?xs" by (rule filter_cong_set)
    then show ?thesis by (simp add: filterData_def pre filterSearch_def e n)
  next
    case False
    then obtain s where s: "q_search q = Some s" "s \<noteq> []" by auto
    then have e: "searchOf q \<noteq> []" by (simp add: searchOf_def toLowerCase_Nil)
    have fd: "filterData rt q loaded = filterE (matchesSearch (searchOf q)) ?xs"
      by (simp add: filterData_def pre filterSearch_def e)
    have throws: "\<And>f. matchesSearch (searchOf q) f = Inl TypeError \<longleftrightarrow> ef_name f = None"
      by (simp add: matchesSearch_def split: option.splits)
    show ?thesis
    proof (cases "nameless_hit rt q loaded")
      case True
      then have "\<not> (\<forall>f \<in> set ?xs. matchesSearch (searchOf q) f \<noteq> Inl TypeError)"
        using s by (auto simp: nameless_hit_def throws)
      then show ?thesis using True by (simp add: fd filterE_char)
    next
      case False
      then have names: "\<forall>f \<in> set ?xs. ef_name f \<noteq> None"
        using s by (auto simp: nameless_hit_def)
      then have ok: "\<forall>f \<in> set ?xs. matchesSearch (searchOf q) f \<noteq> Inl TypeError"
        by (simp add: throws)
      have "\<forall>f \<in> set ?xs. (matchesSearch (searchOf q) f = Inr True) = spec_search_hit q f"
      proof
        fix f assume "f \<in> set ?xs"
        with names obtain n where "ef_name f = Some n" by auto
        with s show "(matchesSearch (searchOf q) f = Inr True) = spec_search_hit q f"
          by (simp add: matchesSearch_spec)
      qed
      then have "filter (\<lambda>f. matchesSearch (searchOf q) f = Inr True) ?xs
                   = filter (spec_search_hit q) ?xs"
        by (rule filter_cong_set)
      also have "\<dots> = filter (\<lambda>f. (spec_in_bounds rt q f \<and> spec_type_selected q f)
                                   \<and> spec_search_hit q f) loaded"
        by simp
      also have "\<dots> = filter (spec_passes rt q) loaded"
        by (rule filter_cong_set) (simp add: spec_passes_def)
      finally show ?thesis using False ok by (simp add: fd filterE_char)
    qed
  qed
qed

lemma nameless_hit_paging:
  "nameless_hit rt (q\<lparr>q_limit := l, q_offset := off\<rparr>) xs = nameless_hit rt q xs"
  by (simp add: nameless_hit_def spec_in_bounds_def spec_type_selected_def)

lemma spec_passes_paging:
  "spec_passes rt (q\<lparr>q_limit := l, q_offset := off\<rparr>) = spec_passes rt q"
  by (rule ext)
     (simp add: spec_passes_def spec_in_bounds_def spec_type_selected_def spec_search_hit_def)

lemma set_slice: "set (slice xs a b) \<subseteq> set xs"
  unfolding slice_def Let_def
  by (meson set_take_subset set_drop_subset subset_trans)

lemma slice_Nil: "slice [] a b = []"
  by (simp add: slice_def)

lemma respond_eq:
  "\<not> nameless_hit rt q loaded \<Longrightarrow>
   respond rt q loaded =
     Inr \<lparr>r_facilities =
            slice (filter (spec_passes rt q) loaded) (offsetOf rt q)
              (js_add (offsetOf rt q) (limitOf rt q)),
          r_stats =
            \<lparr>stats_total = length (filter (spec_passes rt q) loaded),
             stats_truck_parking = countType ''truck_parking'' (filter (spec_passes rt q) loaded),
             stats_service_area = countType ''service_area'' (filter (spec_passes rt q) loaded),
             stats_rest_area = countType ''rest_area'' (filter (spec_passes rt q) loaded)\<rparr>,
          r_total = length (filter (spec_passes rt q) loaded),
          r_offset = offsetOf rt q, r_limit = limitOf rt q\<rparr>"
  by (simp add: respond_def filterData_spec Let_def)

lemma respond_raises:
  "nameless_hit rt q loaded \<Longrightarrow> respond rt q loaded = Inl TypeError"
  by (simp add: respond_def filterData_spec)

lemma respond_Inr:
  assumes "respond rt q loaded = Inr r"
  shows "\<not> nameless_hit rt q loaded"
    and "r_total r = length (filter (spec_passes rt q) loaded)"
    and "set (r_facilities r) \<subseteq> set (filter (spec_passes rt q) loaded)"
proof -
  show n: "\<not> nameless_hit rt q loaded"
    using assms respond_raises by fastforce
  from respond_eq [OF n] assms
  have r: "r = \<lparr>r_facilities =
            slice (filter (spec_passes rt q) loaded) (offsetOf rt q)
              (js_add (offsetOf rt q) (limitOf rt q)),
          r_stats =
            \<lparr>stats_total = length (filter (spec_passes rt q) loaded),
             stats_truck_parking = countType ''truck_parking'' (filter (spec_passes rt q) loaded),
             stats_service_area = countType ''service_area'' (filter (spec_passes rt q) loaded),
             stats_rest_area = countType ''rest_area'' (filter (spec_passes rt q) loaded)\<rparr>,
          r_total = length (filter (spec_passes rt q) loaded),
          r_offset = offsetOf rt q, r_limit = limitOf rt q\<rparr>"
    by simp
  show "r_total r = length (filter (spec_passes rt q) loaded)"
    by (simp add: r)
  show "set (r_facilities r) \<subseteq> set (filter (spec_passes rt q) loaded)"
    by (simp only: r FacilitiesResponse.simps set_slice)
qed

lemma respond_returns:
  "\<not> nameless_hit rt q loaded \<Longrightarrow> \<exists>r. respond rt q loaded = Inr r"
  by (simp add: respond_eq)

lemma spec_in_bounds_given:
  "spec_in_bounds rt q f \<Longrightarrow> q_bounds q = Some b \<Longrightarrow> b \<noteq> [] \<Longrightarrow>
   parseBounds rt b = (minLat, minLng, maxLat, maxLng) \<Longrightarrow>
     js_le minLat (ef_latitude f) \<and> js_le (ef_latitude f) maxLat \<and>
     js_le minLng (ef_longitude f) \<and> js_le (ef_longitude f) maxLng"
  by (simp add: spec_in_bounds_parse inBounds_spec)

lemma names_no_nameless_hit:
  "\<forall>f \<in> set d. ef_name f \<noteq> None \<Longrightarrow> \<not> nameless_hit rt q d"
  by (auto simp: nameless_hit_def)

lemma no_search_no_nameless_hit:
  "q_search q = None \<or> q_search q = Some [] \<Longrightarrow> \<not> nameless_hit rt q d"
  by (auto simp: nameless_hit_def)

text \<open>
  C1. Whenever the query produces a response, every facility in it is one of the loaded
  facilities that pass the bounds, type and search filters as the specification words
  them; when a non-empty \<open>bounds\<close> parameter is given and parses to
  \<open>minLat, minLng, maxLat, maxLng\<close>, its latitude lies in \<open>[minLat, maxLat]\<close> and its
  longitude in \<open>[minLng, maxLng]\<close>. The \<open>total\<close> of the response is the number of
  loaded facilities that pass the three filters, before pagination, and it is the same
  for every \<open>limit\<close> and \<open>offset\<close>. The query does produce a response whenever every
  facility has a name, and whenever no search text is given.
\<close>

theorem query_bounds_and_total:
  "(\<forall>r. respond rt q loaded = Inr r \<longrightarrow>
      (\<forall>f \<in> set (r_facilities r).
          f \<in> set loaded \<and> spec_passes rt q f \<and>
          (\<forall>b minLat minLng maxLat maxLng.
             q_bounds q = Some b \<and> b \<noteq> [] \<and>
             parseBounds rt b = (minLat, minLng, maxLat, maxLng) \<longrightarrow>
             js_le minLat (ef_latitude f) \<and> js_le (ef_latitude f) maxLat \<and>
             js_le minLng (ef_longitude f) \<and> js_le (ef_longitude f) maxLng))
      \<and> r_total r = length (filter (spec_passes rt q) loaded)
      \<and> (\<exists>r'. respond rt (q\<lparr>q_limit := l, q_offset := off\<rparr>) loaded = Inr r'
               \<and> r_total r' = r_total r))
   \<and> ((\<forall>f \<in> set loaded. ef_name f \<noteq> None) \<or> q_search q = None \<or> q_search q = Some []
        \<longrightarrow> (\<exists>r. respond rt q loaded = Inr r))"
proof (intro conjI allI impI ballI)
  fix r assume r: "respond rt q loaded = Inr r"
  note R = respond_Inr [OF r]
  show "r_total r = length (filter (spec_passes rt q) loaded)" by (rule R(2))
  have n': "\<not> nameless_hit rt (q\<lparr>q_limit := l, q_offset := off\<rparr>) loaded"
    using R(1) by (simp add: nameless_hit_paging)
  then obtain r' where r': "respond rt (q\<lparr>q_limit := l, q_offset := off\<rparr>) loaded = Inr r'"
    using respond_returns by blast
  have "r_total r' = length (filter (spec_passes rt q) loaded)"
    using respond_Inr(2) [OF r'] by (simp add: spec_passes_paging)
  with R(2) r'
  show "\<exists>r'. respond rt (q\<lparr>q_limit := l, q_offset := off\<rparr>) loaded = Inr r'
               \<and> r_total r' = r_total r"
    by simp
  fix f assume f: "f \<in> set (r_facilities r)"
  with R(3) have fl: "f \<in> set loaded \<and> spec_passes rt q f" by auto
  then show "f \<in> set loaded" and "spec_passes rt q f" by simp_all
  fix b minLat minLng maxLat maxLng
  assume b: "q_bounds q = Some b \<and> b \<noteq> [] \<and>
             parseBounds rt b = (minLat, minLng, maxLat, maxLng)"
  from fl have "spec_in_bounds rt q f" by (simp add: spec_passes_def)
  with b have ib: "js_le minLat (ef_latitude f) \<and> js_le (ef_latitude f) maxLat \<and>
     js_le minLng (ef_longitude f) \<and> js_le (ef_longitude f) maxLng"
    using spec_in_bounds_given by blast
  from ib show "js_le minLat (ef_latitude f)" by simp
  from ib show "js_le (ef_latitude f) maxLat" by simp
  from ib show "js_le minLng (ef_longitude f)" by simp
  from ib show "js_le (ef_longitude f) maxLng" by simp
next
  assume "(\<forall>f \<in> set loaded. ef_name f \<noteq> None) \<or> q_search q = None \<or> q_search q = Some []"
  then have "\<not> nameless_hit rt q loaded"
    using names_no_nameless_hit no_search_no_nameless_hit by blast
  then show "\<exists>r. respond rt q loaded = Inr r" by (rule respond_returns)
qed

theorem query_bounds_and_total_witness:
  "map ef_name data1 = [Some ''A'', Some ''B'', Some ''Cc'']
   \<and> q_bounds q_search_c = Some ''52.0,4.5,52.5,5.0''
   \<and> parseBounds rt0 ''52.0,4.5,52.5,5.0'' = (Fin 52, Fin (9/2), Fin (105/2), Fin 5)
   \<and> (case respond rt0 q_search_c data1 of
         Inl e \<Rightarrow> False
       | Inr r \<Rightarrow>
           r_facilities r
             = [addFacilityType (feat ''c'' (Some ''Cc'') (522/10) (49/10) False False False)]
           \<and> r_total r = 1)
   \<and> spec_passes rt0 q_search_c
        (addFacilityType (feat ''c'' (Some ''Cc'') (522/10) (49/10) False False False))
   \<and> js_le (Fin 52)
        (ef_latitude (addFacilityType (feat ''c'' (Some ''Cc'') (522/10) (49/10) False False False)))
   \<and> js_le
        (ef_longitude (addFacilityType (feat ''c'' (Some ''Cc'') (522/10) (49/10) False False False)))
        (Fin 5)
   \<and> length (filter (spec_passes rt0 q_search_c) data1) = 1"
proof -
  let ?f = "addFacilityType (feat ''c'' (Some ''Cc'') (522/10) (49/10) False False False)"
  have nm: "map ef_name data1 = [Some ''A'', Some ''B'', Some ''Cc'']" by code_simp
  have names: "\<forall>f \<in> set data1. ef_name f \<noteq> None" by code_simp
  have ev: "case respond rt0 q_search_c data1 of
              Inl e \<Rightarrow> False
            | Inr r \<Rightarrow> r_facilities r = [?f] \<and> r_total r = 1"
    by code_simp
  have qb: "q_bounds q_search_c = Some ''52.0,4.5,52.5,5.0''" by code_simp
  have ne: "''52.0,4.5,52.5,5.0'' \<noteq> []" by simp
  have pb: "parseBounds rt0 ''52.0,4.5,52.5,5.0'' = (Fin 52, Fin (9/2), Fin (105/2), Fin 5)"
    by code_simp
  note T = query_bounds_and_total [of rt0 q_search_c data1 None None]
  from T names obtain r where r: "respond rt0 q_search_c data1 = Inr r" by blast
  from ev r have e2: "r_facilities r = [?f] \<and> r_total r = 1" by simp
  then have mem: "?f \<in> set (r_facilities r)" by simp
  from T r mem qb ne pb
  have a: "spec_passes rt0 q_search_c ?f \<and> js_le (Fin 52) (ef_latitude ?f)
           \<and> js_le (ef_longitude ?f) (Fin 5)"
    by blast
  from T r have "r_total r = length (filter (spec_passes rt0 q_search_c) data1)" by blast
  with e2 have b: "length (filter (spec_passes rt0 q_search_c) data1) = 1" by simp
  from nm qb pb ev a b show ?thesis by blast
qed

text \<open>
  C9. The facility type added to a feature follows a fixed precedence over its
  classification flags: \<open>is_truck_parking\<close> gives \<open>truck_parking\<close>, otherwise
  \<open>is_service_area\<close> gives \<open>service_area\<close>, otherwise (also when every flag is false)
  the type is \<open>rest_area\<close>; so it is always one of these three values.
\<close>

theorem facility_type_precedence:
  "ef_facility_type (addFacilityType feature) =
     Some (if is_truck_parking (ef_classification feature) then ''truck_parking''
           else if is_service_area (ef_classification feature) then ''service_area''
           else ''rest_area'')
   \<and> ef_facility_type (addFacilityType feature)
       \<in> {Some ''truck_parking'', Some ''service_area'', Some ''rest_area''}"
  by (simp add: addFacilityType_def facility_type_of_def)

lemma str_or_nonempty: "d \<noteq> [] \<Longrightarrow> str_or x d \<noteq> []"
  by (simp add: str_or_def split: option.splits)

lemma matchesType_empty_string: "\<not> matchesType [[]] f"
  by (simp add: matchesType_def str_or_nonempty)

lemma matchesType_default:
  "ef_facility_type f \<in> {Some ''truck_parking'', Some ''service_area'', Some ''rest_area''}
     \<Longrightarrow> matchesType [''truck_parking'', ''service_area'', ''rest_area''] f"
  by (auto simp: matchesType_def str_or_def)

lemma addFacilityType_types:
  "ef_facility_type (addFacilityType x)
     \<in> {Some ''truck_parking'', Some ''service_area'', Some ''rest_area''}"
  by (simp add: addFacilityType_def facility_type_of_def)

lemma loaded_types:
  "f \<in> set (map addFacilityType raw) \<Longrightarrow>
     ef_facility_type f \<in> {Some ''truck_parking'', Some ''service_area'', Some ''rest_area''}"
proof -
  assume "f \<in> set (map addFacilityType raw)"
  then obtain x where "f = addFacilityType x" by auto
  then show ?thesis by (simp only: addFacilityType_types)
qed

lemma set_filterBounds: "set (filterBounds rt q xs) \<subseteq> set xs"
  by (auto simp: filterBounds_def split: option.splits)

lemma filterSearch_Nil: "filterSearch q [] = Inr []"
  by (simp add: filterSearch_def)

text \<open>
  C5 as the spec states it fails: a \<open>types\<close> parameter that is present but empty is
  split into the one-element list \<open>['']\<close>, which no facility type equals, so the
  response is empty although the data holds facilities of all three types.
\<close>

theorem empty_types_counterexample:
  "q_types q_empty_types = Some []
   \<and> map (\<lambda>f. str_or (ef_facility_type f) ''rest_area'') data1
        = [''truck_parking'', ''service_area'', ''rest_area'']
   \<and> (case respond rt0 q_empty_types data1 of
         Inl e \<Rightarrow> False
       | Inr r \<Rightarrow> r_facilities r = [] \<and> r_total r = 0)"
  by code_simp

text \<open>
  C5, amended. When the \<open>types\<close> parameter is absent, the type filter removes no
  loaded facility: the filtered set is what the bounds and search filters leave, with
  facilities of every type. When the parameter is present and empty, no facility passes
  the type filter: the query responds with no facilities and a \<open>total\<close> of 0.
\<close>

theorem types_absent_all_empty_none:
  "(q_types q = None \<longrightarrow>
      filterData rt q (map addFacilityType raw)
        = filterSearch q (filterBounds rt q (map addFacilityType raw)))
   \<and> (q_types q = Some [] \<longrightarrow>
        (\<exists>r. respond rt q loaded = Inr r \<and> r_facilities r = [] \<and> r_total r = 0))"
proof (intro conjI impI)
  assume a: "q_types q = None"
  have "\<forall>f \<in> set (filterBounds rt q (map addFacilityType raw)). matchesType (typesOf q) f"
  proof
    fix f assume "f \<in> set (filterBounds rt q (map addFacilityType raw))"
    then have "f \<in> set (map addFacilityType raw)" using set_filterBounds by blast
    then show "matchesType (typesOf q) f"
      using a loaded_types matchesType_default by (simp add: typesOf_def)
  qed
  then have "filter (matchesType (typesOf q)) (filterBounds rt q (map addFacilityType raw))
               = filterBounds rt q (map addFacilityType raw)"
    by (simp add: filter_id_conv)
  then show "filterData rt q (map addFacilityType raw)
        = filterSearch q (filterBounds rt q (map addFacilityType raw))"
    by (simp add: filterData_def)
next
  assume a: "q_types q = Some []"
  then have t: "typesOf q = [[]]" by (simp add: typesOf_def)
  have e: "filterData rt q loaded = Inr []"
    by (simp add: filterData_def t matchesType_empty_string filterSearch_Nil)
  show "\<exists>r. respond rt q loaded = Inr r \<and> r_facilities r = [] \<and> r_total r = 0"
    by (simp add: respond_def Let_def e slice_Nil)
qed

theorem types_absent_all_empty_none_witness:
  "q_types q_no_types = None
   \<and> filterData rt0 q_no_types data1 = Inr data1
   \<and> q_types q_empty_types = Some []
   \<and> (\<exists>r. respond rt0 q_empty_types data1 = Inr r \<and> r_facilities r = [] \<and> r_total r = 0)"
proof -
  have a: "q_types q_no_types = None" by code_simp
  have b: "q_types q_empty_types = Some []" by code_simp
  have c: "filterSearch q_no_types (filterBounds rt0 q_no_types data1) = Inr data1"
    by code_simp
  have c': "filterSearch q_no_types (filterBounds rt0 q_no_types (map addFacilityType raw1))
              = Inr data1"
    using c by (simp only: data1_def)
  from types_absent_all_empty_none [of q_no_types rt0 raw1 data1] a
  have "filterData rt0 q_no_types (map addFacilityType raw1)
          = filterSearch q_no_types (filterBounds rt0 q_no_types (map addFacilityType raw1))"
    by blast
  with c' have "filterData rt0 q_no_types data1 = Inr data1" by (simp only: data1_def)
  moreover from types_absent_all_empty_none [of q_empty_types rt0 "[]" data1] b
  have "\<exists>r. respond rt0 q_empty_types data1 = Inr r \<and> r_facilities r = [] \<and> r_total r = 0"
    by blast
  ultimately show ?thesis using a b by blast
qed





text \<open>
  A cached snapshot that holds a facility without a name is a different matter: a
  request with a search text reaches \<open>feature.name.toLowerCase()\<close> on it, and the
  exception ends in the same \<open>catch\<close> branch.
\<close>

lemma nameless_feature_raises:
  "GET rt0 (Some (map addFacilityType raw_nameless)) None q_search_c
     = (Status500 ''Failed to load facilities'', Some (map addFacilityType raw_nameless))"
  by code_simp

section \<open>Properties of the NDW and EU routes\<close>

lemma foldl_countGroup:
  "foldl (countGroup rt) acc groups =
     \<lparr>c_total = foldl js_add (c_total acc) (map (groupSpaces rt) groups),
      c_lorry = foldl js_add (c_lorry acc)
                  (map (groupSpaces rt) (groupsOfType ''lorry'' groups)),
      c_refrigerated = foldl js_add (c_refrigerated acc)
                  (map (groupSpaces rt) (groupsOfType ''refrigeratedGoods'' groups)),
      c_heavyHaul = foldl js_add (c_heavyHaul acc)
                  (map (groupSpaces rt) (groupsOfType ''heavyHaul'' groups))\<rparr>"
proof (induction groups arbitrary: acc)
  case Nil
  show ?case by (simp add: groupsOfType_def)
next
  case (Cons g gs)
  show ?case
    unfolding foldl_Cons Cons.IH
    by (simp add: countGroup_def Let_def groupsOfType_def)
qed

lemma countGroups_sums:
  "countGroups rt groups =
     \<lparr>c_total = sumSpaces rt groups,
      c_lorry = sumSpaces rt (groupsOfType ''lorry'' groups),
      c_refrigerated = sumSpaces rt (groupsOfType ''refrigeratedGoods'' groups),
      c_heavyHaul = sumSpaces rt (groupsOfType ''heavyHaul'' groups)\<rparr>"
  by (simp add: countGroups_def foldl_countGroup sumSpaces_def zeroCounts_def)

lemma positiveOrUndefined_Some:
  "positiveOrUndefined n = Some v \<Longrightarrow> v = n \<and> js_gt v (Fin 0)"
  by (simp add: positiveOrUndefined_def split: if_splits)

lemma positiveOrUndefined_not_zero: "positiveOrUndefined n \<noteq> Some (Fin 0)"
  by (auto simp: positiveOrUndefined_def js_gt_def)

lemma sumSpaces_Nil: "sumSpaces rt [] = Fin 0"
  by (simp add: sumSpaces_def)

lemma positiveOrUndefined_zero: "positiveOrUndefined (Fin 0) = None"
  by (simp add: positiveOrUndefined_def js_gt_def)

text \<open>
  C2 as the spec states it fails: a group whose vehicle-type code is \<open>car\<close> (not one of
  the three recognized codes) with 10 spaces adds 10 to the total and nothing to the
  lorry bucket, which stays absent.
\<close>

theorem unknown_code_counterexample:
  "groupVehicleType (spaceGroup 10 ''car'') = Some (JStr ''car'')
   \<and> ndw_capacity (parseRecord rt0 record_cars)
       = \<lparr>totalSpaces = Fin 10, lorrySpaces = None, refrigeratedSpaces = None,
          heavyHaulSpaces = None\<rparr>"
  by code_simp

text \<open>
  C2, amended. The capacity loop sums the space counts of all groups into the total,
  and the counts of the groups coded \<open>lorry\<close>, \<open>refrigeratedGoods\<close> and \<open>heavyHaul\<close>
  into their own counters. A group with any other code, or with none, is added to the
  total only and leaves the three counters as they are.
\<close>

theorem capacity_sums_per_type:
  "countGroups rt groups =
     \<lparr>c_total = sumSpaces rt groups,
      c_lorry = sumSpaces rt (groupsOfType ''lorry'' groups),
      c_refrigerated = sumSpaces rt (groupsOfType ''refrigeratedGoods'' groups),
      c_heavyHaul = sumSpaces rt (groupsOfType ''heavyHaul'' groups)\<rparr>
   \<and> (groupVehicleType g \<noteq> Some (JStr ''lorry'') \<and>
      groupVehicleType g \<noteq> Some (JStr ''refrigeratedGoods'') \<and>
      groupVehicleType g \<noteq> Some (JStr ''heavyHaul'') \<longrightarrow>
      countGroup rt acc g = acc\<lparr>c_total := js_add (c_total acc) (groupSpaces rt g)\<rparr>)"
  by (simp add: countGroups_sums countGroup_def Let_def)

theorem capacity_sums_per_type_witness:
  "groupVehicleType (spaceGroup 10 ''car'') = Some (JStr ''car'')
   \<and> countGroup rt0 zeroCounts (spaceGroup 10 ''car'') = zeroCounts\<lparr>c_total := Fin 10\<rparr>
   \<and> countGroups rt0 [spaceGroup 30 ''lorry'', spaceGroup 18 ''heavyHaul'']
       = \<lparr>c_total = Fin 48, c_lorry = Fin 30, c_refrigerated = Fin 0, c_heavyHaul = Fin 18\<rparr>
   \<and> ndw_capacity (parseRecord rt0 record_421)
       = \<lparr>totalSpaces = Fin 48, lorrySpaces = Some (Fin 30), refrigeratedSpaces = None,
          heavyHaulSpaces = Some (Fin 18)\<rparr>"
proof -
  let ?g = "spaceGroup 10 ''car''"
  let ?gs = "[spaceGroup 30 ''lorry'', spaceGroup 18 ''heavyHaul'']"
  have vt: "groupVehicleType ?g = Some (JStr ''car'')" by code_simp
  have ne: "groupVehicleType ?g \<noteq> Some (JStr ''lorry'') \<and>
            groupVehicleType ?g \<noteq> Some (JStr ''refrigeratedGoods'') \<and>
            groupVehicleType ?g \<noteq> Some (JStr ''heavyHaul'')"
    by (simp add: vt)
  have sp: "zeroCounts\<lparr>c_total := js_add (c_total zeroCounts) (groupSpaces rt0 ?g)\<rparr>
              = zeroCounts\<lparr>c_total := Fin 10\<rparr>" by code_simp
  have sums: "\<lparr>c_total = sumSpaces rt0 ?gs,
      c_lorry = sumSpaces rt0 (groupsOfType ''lorry'' ?gs),
      c_refrigerated = sumSpaces rt0 (groupsOfType ''refrigeratedGoods'' ?gs),
      c_heavyHaul = sumSpaces rt0 (groupsOfType ''heavyHaul'' ?gs)\<rparr>
     = \<lparr>c_total = Fin 48, c_lorry = Fin 30, c_refrigerated = Fin 0, c_heavyHaul = Fin 18\<rparr>"
    by code_simp
  have cap: "ndw_capacity (parseRecord rt0 record_421)
       = \<lparr>totalSpaces = Fin 48, lorrySpaces = Some (Fin 30), refrigeratedSpaces = None,
          heavyHaulSpaces = Some (Fin 18)\<rparr>" by code_simp
  note T = capacity_sums_per_type [of rt0 ?gs ?g zeroCounts]
  from T ne sp have "countGroup rt0 zeroCounts ?g = zeroCounts\<lparr>c_total := Fin 10\<rparr>"
    by simp
  moreover from T sums have "countGroups rt0 ?gs
       = \<lparr>c_total = Fin 48, c_lorry = Fin 30, c_refrigerated = Fin 0, c_heavyHaul = Fin 18\<rparr>"
    by simp
  ultimately show ?thesis using vt cap by blast
qed

text \<open>
  C7. In the capacity of every facility produced by \<open>parseParkingTable\<close>, each of the
  lorry, refrigerated and heavy-haul entries is either absent or a number greater than
  zero, never zero; an entry is absent when the record has no group of its type.
\<close>

theorem capacity_entries_never_zero:
  "(\<forall>v. lorrySpaces (ndw_capacity (parseRecord rt r)) = Some v \<longrightarrow> js_gt v (Fin 0))
   \<and> (\<forall>v. refrigeratedSpaces (ndw_capacity (parseRecord rt r)) = Some v \<longrightarrow> js_gt v (Fin 0))
   \<and> (\<forall>v. heavyHaulSpaces (ndw_capacity (parseRecord rt r)) = Some v \<longrightarrow> js_gt v (Fin 0))
   \<and> lorrySpaces (ndw_capacity (parseRecord rt r)) \<noteq> Some (Fin 0)
   \<and> refrigeratedSpaces (ndw_capacity (parseRecord rt r)) \<noteq> Some (Fin 0)
   \<and> heavyHaulSpaces (ndw_capacity (parseRecord rt r)) \<noteq> Some (Fin 0)
   \<and> (groupsOfType ''lorry'' (ensureArray (getProp r ''groupOfParkingSpaces'')) = [] \<longrightarrow>
        lorrySpaces (ndw_capacity (parseRecord rt r)) = None)
   \<and> (groupsOfType ''refrigeratedGoods'' (ensureArray (getProp r ''groupOfParkingSpaces'')) = [] \<longrightarrow>
        refrigeratedSpaces (ndw_capacity (parseRecord rt r)) = None)
   \<and> (groupsOfType ''heavyHaul'' (ensureArray (getProp r ''groupOfParkingSpaces'')) = [] \<longrightarrow>
        heavyHaulSpaces (ndw_capacity (parseRecord rt r)) = None)"
proof -
  let ?gs = "ensureArray (getProp r ''groupOfParkingSpaces'')"
  have l: "lorrySpaces (ndw_capacity (parseRecord rt r))
             = positiveOrUndefined (c_lorry (countGroups rt ?gs))"
    by (simp add: parseRecord_def Let_def)
  have f: "refrigeratedSpaces (ndw_capacity (parseRecord rt r))
             = positiveOrUndefined (c_refrigerated (countGroups rt ?gs))"
    by (simp add: parseRecord_def Let_def)
  have h: "heavyHaulSpaces (ndw_capacity (parseRecord rt r))
             = positiveOrUndefined (c_heavyHaul (countGroups rt ?gs))"
    by (simp add: parseRecord_def Let_def)
  show ?thesis
    unfolding l f h
    by (auto dest: positiveOrUndefined_Some
             simp: positiveOrUndefined_not_zero countGroups_sums sumSpaces_Nil
                   positiveOrUndefined_zero)
qed

theorem capacity_entries_never_zero_witness:
  "lorrySpaces (ndw_capacity (parseRecord rt0 record_421)) = Some (Fin 30)
   \<and> js_gt (Fin 30) (Fin 0)
   \<and> groupsOfType ''refrigeratedGoods'' (ensureArray (getProp record_421 ''groupOfParkingSpaces'')) = []
   \<and> refrigeratedSpaces (ndw_capacity (parseRecord rt0 record_421)) = None"
proof -
  have a: "lorrySpaces (ndw_capacity (parseRecord rt0 record_421)) = Some (Fin 30)"
    by code_simp
  have b: "groupsOfType ''refrigeratedGoods''
             (ensureArray (getProp record_421 ''groupOfParkingSpaces'')) = []"
    by code_simp
  note T = capacity_entries_never_zero [of rt0 record_421]
  from T a have "js_gt (Fin 30) (Fin 0)" by blast
  moreover from T b have "refrigeratedSpaces (ndw_capacity (parseRecord rt0 record_421)) = None"
    by blast
  ultimately show ?thesis using a b by blast
qed

lemma num_or0_None: "num_or0 (extractNumber rt None) = Fin 0"
  by (simp add: num_or0_def extractNumber_def)

lemma num_or0_number: "truthy_num n \<Longrightarrow> num_or0 (extractNumber rt (Some (JNum n))) = n"
  by (simp add: num_or0_def extractNumber_def)

lemma eu_location_parseEURecord: "eu_location (parseEURecord rt r) = recordLocation rt r"
  by (simp add: parseEURecord_def split: prod.splits)

lemma ndw_location_parseRecord: "ndw_location (parseRecord rt r) = recordLocation rt r"
  by (simp add: parseRecord_def Let_def)

text \<open>
  C3 as the spec states it fails: a record with no coordinates at all and a record with
  latitude 999 and longitude -500 are both emitted, by the NDW route and by the EU
  route, the first at latitude 0 and longitude 0, the second with its coordinates as
  given.
\<close>

theorem missing_coordinates_counterexample:
  "pointCoordinates record_cars = None
   \<and> map ndw_location (parseParkingTable rt0 (tableDoc (JArr [record_cars, record_far])))
       = [\<lparr>latitude = Fin 0, longitude = Fin 0\<rparr>,
          \<lparr>latitude = Fin 999, longitude = Fin (- 500)\<rparr>]
   \<and> map eu_location
         (fetchAndParseEUData rt0 (Some (tableDoc (JArr [record_cars, record_far]))))
       = [\<lparr>latitude = Fin 0, longitude = Fin 0\<rparr>,
          \<lparr>latitude = Fin 999, longitude = Fin (- 500)\<rparr>]"
  by code_simp

text \<open>
  C3, amended. Both routes emit one facility for every parking record of the document:
  no record is rejected. A coordinate that is missing from the record is replaced by 0,
  and a coordinate given as a non-zero number is taken over as it is, whatever its
  range.
\<close>

theorem records_emitted_with_default_coordinates:
  "length (parseParkingTable rt data) = length (parkingRecords data)
   \<and> length (fetchAndParseEUData rt (Some data)) = length (parkingRecords data)
   \<and> (opt_prop (pointCoordinates r) ''latitude'' = None \<longrightarrow>
        latitude (ndw_location (parseRecord rt r)) = Fin 0 \<and>
        latitude (eu_location (parseEURecord rt r)) = Fin 0)
   \<and> (opt_prop (pointCoordinates r) ''longitude'' = None \<longrightarrow>
        longitude (ndw_location (parseRecord rt r)) = Fin 0 \<and>
        longitude (eu_location (parseEURecord rt r)) = Fin 0)
   \<and> (opt_prop (pointCoordinates r) ''latitude'' = Some (JNum n) \<and> truthy_num n \<longrightarrow>
        latitude (ndw_location (parseRecord rt r)) = n \<and>
        latitude (eu_location (parseEURecord rt r)) = n)
   \<and> (opt_prop (pointCoordinates r) ''longitude'' = Some (JNum m) \<and> truthy_num m \<longrightarrow>
        longitude (ndw_location (parseRecord rt r)) = m \<and>
        longitude (eu_location (parseEURecord rt r)) = m)"
  by (simp add: parseParkingTable_def fetchAndParseEUData_def eu_location_parseEURecord
        ndw_location_parseRecord recordLocation_def num_or0_None num_or0_number)

theorem records_emitted_with_default_coordinates_witness:
  "opt_prop (pointCoordinates record_cars) ''latitude'' = None
   \<and> opt_prop (pointCoordinates record_cars) ''longitude'' = None
   \<and> ndw_location (parseRecord rt0 record_cars) = \<lparr>latitude = Fin 0, longitude = Fin 0\<rparr>
   \<and> opt_prop (pointCoordinates record_far) ''latitude'' = Some (JNum (Fin 999))
   \<and> opt_prop (pointCoordinates record_far) ''longitude'' = Some (JNum (Fin (- 500)))
   \<and> latitude (eu_location (parseEURecord rt0 record_far)) = Fin 999
   \<and> longitude (eu_location (parseEURecord rt0 record_far)) = Fin (- 500)
   \<and> length (parseParkingTable rt0 (tableDoc (JArr [record_cars, record_far]))) = 2"
proof -
  let ?d = "tableDoc (JArr [record_cars, record_far])"
  have a: "opt_prop (pointCoordinates record_cars) ''latitude'' = None" by code_simp
  have b: "opt_prop (pointCoordinates record_cars) ''longitude'' = None" by code_simp
  have c: "opt_prop (pointCoordinates record_far) ''latitude'' = Some (JNum (Fin 999))"
    by code_simp
  have d: "opt_prop (pointCoordinates record_far) ''longitude'' = Some (JNum (Fin (- 500)))"
    by code_simp
  have t: "truthy_num (Fin 999) \<and> truthy_num (Fin (- 500))" by (simp add: truthy_num_def)
  have n: "length (parkingRecords ?d) = 2" by code_simp
  from records_emitted_with_default_coordinates [of rt0 ?d record_cars "Fin 1" "Fin 1"] a b
  have "latitude (ndw_location (parseRecord rt0 record_cars)) = Fin 0 \<and>
        longitude (ndw_location (parseRecord rt0 record_cars)) = Fin 0" by blast
  then have e: "ndw_location (parseRecord rt0 record_cars) = \<lparr>latitude = Fin 0, longitude = Fin 0\<rparr>"
    by simp
  from records_emitted_with_default_coordinates [of rt0 ?d record_far "Fin 999" "Fin (- 500)"] c d t n
  have "latitude (eu_location (parseEURecord rt0 record_far)) = Fin 999 \<and>
        longitude (eu_location (parseEURecord rt0 record_far)) = Fin (- 500) \<and>
        length (parseParkingTable rt0 ?d) = 2" by simp
  with a b c d e show ?thesis by blast
qed

lemma truncate_enrich: "NDWParkingFacility.truncate (enrich statusMap f) = f"
  by (simp add: enrich_def NDWParkingFacility.truncate_def)

lemma enrich_unmatched:
  "k \<noteq> ndw_id f \<Longrightarrow> enrich (statusMap(k := s)) f = enrich statusMap f"
  by (simp add: enrich_def)

text \<open>
  C4 as the spec states it fails: a status record for \<open>NL-12_421\<close> arriving in a
  request whose table has no facility is parsed into the status map and appears nowhere
  in the response; in the next request, whose table has the facility and whose status
  document no longer has the record, the facility has no live status. Nothing was held.
\<close>

theorem unmatched_status_counterexample:
  "parseParkingStatus rt0 (statusDoc (statusRec ''NL-12_421'' 5 43)) (JStr ''NL-12_421'')
      \<noteq> None
   \<and> facilitiesOf (GET_ndw rt0 (Some (tableDoc (JArr [])))
                     (Some (statusDoc (statusRec ''NL-12_421'' 5 43)))) = []
   \<and> map ndw_id (facilitiesOf (GET_ndw rt0 (Some (tableDoc record_421))
                     (Some (statusDoc (JArr []))))) = [JStr ''NL-12_421'']
   \<and> map liveStatus (facilitiesOf (GET_ndw rt0 (Some (tableDoc record_421))
                     (Some (statusDoc (JArr []))))) = [None]"
  by code_simp

text \<open>
  C4, amended. The merge returns exactly the static facilities, in order, each with the
  status stored under its own id (or none); a dynamic record never creates a facility.
  A status whose id matches no facility does not influence the result: it is dropped,
  and since the handler keeps no state between requests it is not retried.
\<close>

theorem merge_keeps_static_facilities:
  "map NDWParkingFacility.truncate (mergeLiveStatus facilities statusMap) = facilities
   \<and> map liveStatus (mergeLiveStatus facilities statusMap)
       = map (\<lambda>f. statusMap (ndw_id f)) facilities
   \<and> (k \<notin> set (map ndw_id facilities) \<longrightarrow>
        mergeLiveStatus facilities (statusMap(k := s)) = mergeLiveStatus facilities statusMap)"
proof (intro conjI impI)
  show "map NDWParkingFacility.truncate (mergeLiveStatus facilities statusMap) = facilities"
    by (simp add: mergeLiveStatus_def truncate_enrich comp_def)
  show "map liveStatus (mergeLiveStatus facilities statusMap)
       = map (\<lambda>f. statusMap (ndw_id f)) facilities"
    by (simp add: mergeLiveStatus_def enrich_def comp_def)
  assume "k \<notin> set (map ndw_id facilities)"
  then have "\<forall>f \<in> set facilities. enrich (statusMap(k := s)) f = enrich statusMap f"
    using enrich_unmatched by fastforce
  then show "mergeLiveStatus facilities (statusMap(k := s)) = mergeLiveStatus facilities statusMap"
    by (simp add: mergeLiveStatus_def)
qed

theorem merge_keeps_static_facilities_witness:
  "JStr ''NL-00_0'' \<notin> set (map ndw_id (parseParkingTable rt0 (tableDoc record_421)))
   \<and> mergeLiveStatus (parseParkingTable rt0 (tableDoc record_421))
        ((parseParkingStatus rt0 (statusDoc (statusRec ''NL-00_0'' 5 43)))(JStr ''NL-00_0'' := None))
       = mergeLiveStatus (parseParkingTable rt0 (tableDoc record_421))
           (parseParkingStatus rt0 (statusDoc (statusRec ''NL-00_0'' 5 43)))
   \<and> map NDWParkingFacility.truncate
         (mergeLiveStatus (parseParkingTable rt0 (tableDoc record_421))
            (parseParkingStatus rt0 (statusDoc (statusRec ''NL-00_0'' 5 43))))
       = parseParkingTable rt0 (tableDoc record_421)"
proof -
  have a: "JStr ''NL-00_0'' \<notin> set (map ndw_id (parseParkingTable rt0 (tableDoc record_421)))"
    by code_simp
  from merge_keeps_static_facilities
         [of "parseParkingTable rt0 (tableDoc record_421)"
             "parseParkingStatus rt0 (statusDoc (statusRec ''NL-00_0'' 5 43))"
             "JStr ''NL-00_0''" None] a
  show ?thesis by blast
qed

lemma addStatus_skip:
  "\<not> truthy_opt (referenceId r) \<Longrightarrow> addStatus rt m r = m"
  by (simp add: addStatus_def truthy_opt_def split: option.splits)

lemma addStatus_set:
  "referenceId r = Some k \<Longrightarrow> truthy k \<Longrightarrow> addStatus rt m r = m(k \<mapsto> statusOf rt k r)"
  by (simp add: addStatus_def)

lemma st_id_statusOf: "st_id (statusOf rt k r) = k"
  by (simp add: statusOf_def Let_def)

lemma addStatus_cases:
  "addStatus rt m r = m \<and> \<not> truthy_opt (referenceId r)
   \<or> (\<exists>k. referenceId r = Some k \<and> truthy k \<and> addStatus rt m r = m(k \<mapsto> statusOf rt k r))"
proof (cases "referenceId r")
  case None
  then show ?thesis by (simp add: addStatus_def truthy_opt_def)
next
  case (Some k)
  then show ?thesis by (cases "truthy k") (simp_all add: addStatus_def truthy_opt_def)
qed

lemma addStatus_key:
  assumes "\<forall>k v. m k = Some v \<longrightarrow> st_id v = k"
  shows "\<forall>k v. addStatus rt m r k = Some v \<longrightarrow> st_id v = k"
proof -
  from addStatus_cases [of rt m r] show ?thesis
  proof
    assume "addStatus rt m r = m \<and> \<not> truthy_opt (referenceId r)"
    with assms show ?thesis by simp
  next
    assume "\<exists>k. referenceId r = Some k \<and> truthy k \<and> addStatus rt m r = m(k \<mapsto> statusOf rt k r)"
    then obtain k0 where e: "addStatus rt m r = m(k0 \<mapsto> statusOf rt k0 r)" by blast
    show ?thesis unfolding e using assms by (simp add: st_id_statusOf)
  qed
qed

lemma dom_addStatus:
  "dom (addStatus rt m r) = dom m \<union> {k. truthy k \<and> referenceId r = Some k}"
proof -
  from addStatus_cases [of rt m r] show ?thesis
  proof
    assume a: "addStatus rt m r = m \<and> \<not> truthy_opt (referenceId r)"
    then have e: "{k. truthy k \<and> referenceId r = Some k} = {}"
      by (auto simp: truthy_opt_def)
    from a have m: "addStatus rt m r = m" by blast
    show ?thesis unfolding e m by simp
  next
    assume "\<exists>k. referenceId r = Some k \<and> truthy k \<and> addStatus rt m r = m(k \<mapsto> statusOf rt k r)"
    then obtain k0 where r: "referenceId r = Some k0" and t: "truthy k0"
      and e: "addStatus rt m r = m(k0 \<mapsto> statusOf rt k0 r)" by blast
    from r t have s: "{k. truthy k \<and> referenceId r = Some k} = {k0}" by auto
    show ?thesis unfolding e s by simp
  qed
qed

lemma foldl_addStatus_key:
  "(\<forall>k v. m k = Some v \<longrightarrow> st_id v = k)
     \<Longrightarrow> (\<forall>k v. foldl (addStatus rt) m rs k = Some v \<longrightarrow> st_id v = k)"
proof (induction rs arbitrary: m)
  case Nil
  then show ?case by simp
next
  case (Cons r rs)
  from Cons.prems have "\<forall>k v. addStatus rt m r k = Some v \<longrightarrow> st_id v = k"
    by (rule addStatus_key)
  then have "\<forall>k v. foldl (addStatus rt) (addStatus rt m r) rs k = Some v \<longrightarrow> st_id v = k"
    by (rule Cons.IH)
  then show ?case by (simp only: foldl_Cons)
qed

lemma dom_foldl_addStatus:
  "dom (foldl (addStatus rt) m rs)
     = dom m \<union> {k. truthy k \<and> (\<exists>r \<in> set rs. referenceId r = Some k)}"
proof (induction rs arbitrary: m)
  case Nil
  show ?case by simp
next
  case (Cons r rs)
  have "{k. truthy k \<and> (\<exists>x \<in> set (r # rs). referenceId x = Some k)}
          = {k. truthy k \<and> referenceId r = Some k}
            \<union> {k. truthy k \<and> (\<exists>x \<in> set rs. referenceId x = Some k)}"
    by auto
  then show ?case
    unfolding foldl_Cons Cons.IH dom_addStatus by (simp only: Un_assoc)
qed

text \<open>
  C10. Every entry of the map returned by \<open>parseParkingStatus\<close> is stored under the
  \<open>id\<close> of its value. The keys are exactly the (truthy) \<open>parkingRecordReference\<close> ids
  of the status records; a record without such an id leaves the map as it is.
\<close>

theorem status_map_keys:
  "(\<forall>k v. parseParkingStatus rt data k = Some v \<longrightarrow> st_id v = k)
   \<and> dom (parseParkingStatus rt data)
       = {k. truthy k \<and> (\<exists>r \<in> set (statusRecords data). referenceId r = Some k)}
   \<and> (\<not> truthy_opt (referenceId statusRecord) \<longrightarrow>
        addStatus rt statusMap statusRecord = statusMap)"
proof (intro conjI)
  show "\<forall>k v. parseParkingStatus rt data k = Some v \<longrightarrow> st_id v = k"
    unfolding parseParkingStatus_def by (rule foldl_addStatus_key) simp
  show "dom (parseParkingStatus rt data)
       = {k. truthy k \<and> (\<exists>r \<in> set (statusRecords data). referenceId r = Some k)}"
    by (simp add: parseParkingStatus_def dom_foldl_addStatus)
  show "\<not> truthy_opt (referenceId statusRecord) \<longrightarrow>
        addStatus rt statusMap statusRecord = statusMap"
    by (simp add: addStatus_skip)
qed

theorem status_map_keys_witness:
  "parseParkingStatus rt0 (statusDoc (JArr [statusRec ''NL-12_421'' 5 43, statusRec_noid]))
       (JStr ''NL-12_421'')
     = Some (statusOf rt0 (JStr ''NL-12_421'') (statusRec ''NL-12_421'' 5 43))
   \<and> st_id (statusOf rt0 (JStr ''NL-12_421'') (statusRec ''NL-12_421'' 5 43))
       = JStr ''NL-12_421''
   \<and> \<not> truthy_opt (referenceId statusRec_noid)
   \<and> addStatus rt0 (parseParkingStatus rt0 (statusDoc (statusRec ''NL-12_421'' 5 43)))
        statusRec_noid
       = parseParkingStatus rt0 (statusDoc (statusRec ''NL-12_421'' 5 43))"
proof -
  let ?d = "statusDoc (JArr [statusRec ''NL-12_421'' 5 43, statusRec_noid])"
  let ?m = "parseParkingStatus rt0 (statusDoc (statusRec ''NL-12_421'' 5 43))"
  have a: "parseParkingStatus rt0 ?d (JStr ''NL-12_421'')
             = Some (statusOf rt0 (JStr ''NL-12_421'') (statusRec ''NL-12_421'' 5 43))"
    by code_simp
  have b: "\<not> truthy_opt (referenceId statusRec_noid)" by code_simp
  note T = status_map_keys [of rt0 ?d statusRec_noid ?m]
  from T a have "st_id (statusOf rt0 (JStr ''NL-12_421'') (statusRec ''NL-12_421'' 5 43))
       = JStr ''NL-12_421''" by blast
  moreover from T b have "addStatus rt0 ?m statusRec_noid = ?m" by blast
  ultimately show ?thesis using a b by blast
qed

section \<open>Properties of the Zenodo route\<close>

lemma parseRow_invalid:
  "invalidCoordinates (coordinateAt rt (latIndex ix) (rowFields (trim l)))
     (coordinateAt rt (lonIndex ix) (rowFields (trim l)))
   \<Longrightarrow> parseRow rt ix i l = Inr None"
  by (auto simp: parseRow_def Let_def invalidCoordinates_def split: option.splits)

text \<open>
  C6 as the spec states it fails: the parser keeps no error counter. Its result for an
  input whose last row has the unparseable latitude \<open>abc\<close> is the very result for the
  input without that row, a list of facilities and nothing else.
\<close>

theorem no_error_counter_counterexample:
  "parseFloat rt0 ''abc'' = NaN
   \<and> parseCSV rt0 csv_bad = parseCSV rt0 csv_good
   \<and> parseCSV rt0 csv_good =
       Inr [\<lparr>z_id = ''zenodo-NL-1'', z_name = ''NL-1'', z_category = ''truckstop'',
              z_location = \<lparr>latitude = Fin (521 / 10), longitude = Fin (46 / 10)\<rparr>,
              z_country = ''NL'', z_area = None,
              z_source = ''Zenodo (Fraunhofer ISI)''\<rparr>]"
  by code_simp

text \<open>
  C6, amended. A row whose latitude or longitude is unparseable (the column is missing,
  or \<open>parseFloat\<close> of the field is \<open>NaN\<close>) adds no facility and raises nothing, and
  the loop goes on with the next row and the same facilities collected so far. No error
  counter is kept.
\<close>

theorem unparseable_row_skipped:
  "invalidCoordinates (coordinateAt rt (latIndex ix) (rowFields (trim l)))
     (coordinateAt rt (lonIndex ix) (rowFields (trim l)))
   \<longrightarrow> parseRow rt ix i l = Inr None
       \<and> parseRows rt ix i (l # ls) facilities = parseRows rt ix (Suc i) ls facilities"
  by (simp add: parseRow_invalid)

theorem unparseable_row_skipped_witness:
  "coordinateAt rt0 (latIndex (columnIndices (headersOf csv_header)))
       (rowFields (trim ''abc;4.7;NL;truckstop'')) = Some NaN
   \<and> parseRow rt0 (columnIndices (headersOf csv_header)) 1 ''abc;4.7;NL;truckstop''
       = Inr None
   \<and> parseRows rt0 (columnIndices (headersOf csv_header)) 1
         [''abc;4.7;NL;truckstop'', ''52.1;4.6;NL;truckstop''] []
       = Inr [\<lparr>z_id = ''zenodo-NL-2'', z_name = ''NL-2'', z_category = ''truckstop'',
              z_location = \<lparr>latitude = Fin (521 / 10), longitude = Fin (46 / 10)\<rparr>,
              z_country = ''NL'', z_area = None,
              z_source = ''Zenodo (Fraunhofer ISI)''\<rparr>]"
proof -
  let ?ix = "columnIndices (headersOf csv_header)"
  let ?l = "''abc;4.7;NL;truckstop''"
  have a: "coordinateAt rt0 (latIndex ?ix) (rowFields (trim ?l)) = Some NaN"
    by code_simp
  have b: "invalidCoordinates (coordinateAt rt0 (latIndex ?ix) (rowFields (trim ?l)))
             (coordinateAt rt0 (lonIndex ?ix) (rowFields (trim ?l)))"
    by code_simp
  have c: "parseRows rt0 ?ix (Suc 1) [''52.1;4.6;NL;truckstop''] []
       = Inr [\<lparr>z_id = ''zenodo-NL-2'', z_name = ''NL-2'', z_category = ''truckstop'',
              z_location = \<lparr>latitude = Fin (521 / 10), longitude = Fin (46 / 10)\<rparr>,
              z_country = ''NL'', z_area = None,
              z_source = ''Zenodo (Fraunhofer ISI)''\<rparr>]"
    by code_simp
  from unparseable_row_skipped [of rt0 ?ix ?l 1 "[''52.1;4.6;NL;truckstop'']" "[]"] b
  have "parseRow rt0 ?ix 1 ?l = Inr None
        \<and> parseRows rt0 ?ix 1 [?l, ''52.1;4.6;NL;truckstop''] []
            = parseRows rt0 ?ix (Suc 1) [''52.1;4.6;NL;truckstop''] []"
    by blast
  with a c show ?thesis by simp
qed

text \<open>
  A row with parseable coordinates but fewer fields than the header has columns is a
  different matter: reading its country calls \<open>replace\<close> on \<open>undefined\<close>, and the
  exception leaves \<open>parseCSV\<close>.
\<close>

lemma short_row_raises: "parseCSV rt0 csv_short = Inl TypeError"
  by code_simp

end
